theory Spec2Isabelle
  imports Complex_Main "HOL-Library.Word" "HOL-Library.FSet"
begin

unbundle bit_operations_syntax

section \<open>The GitHub-to-Feishu webhook relay (main.js)\<close>

text \<open>
  The relay is one Express handler, \<^verbatim>\<open>app.post("/github/webhook", ...)\<close>, with the helpers
  \<^verbatim>\<open>verifyGitHubSignature\<close>, \<^verbatim>\<open>feishuSign\<close>, \<^verbatim>\<open>sendFeishuText\<close> and \<^verbatim>\<open>sendFeishuPost\<close>.
  The embedding follows main.js line by line. What the program takes from its platform is
  a parameter of the model: the HMAC-SHA256 of Node's crypto module, the base64 digest
  encoding, \<^verbatim>\<open>JSON.parse\<close>, the printing of numbers, the members of the built-in
  prototypes, the clock and the outcome of the outbound \<^verbatim>\<open>fetch\<close>.
\<close>

subsection \<open>Strings, bytes and exceptions\<close>

text \<open>
  A JavaScript string is a sequence of UTF-16 code units. A Buffer is a sequence of bytes.
  The value of an HTTP request header reaches the handler as a string whose code units
  are the bytes of the header line (Node decodes header bytes as latin1), so a header
  value is modelled by a \<^typ>\<open>string\<close>, one \<^typ>\<open>char\<close> for each code unit below 256.
\<close>

type_synonym byte = "8 word"
type_synonym jstring = "16 word list"

datatype error = TypeError | RangeError

definition lit :: "string \<Rightarrow> jstring" where
  "lit s = map of_char s"

definition nl :: jstring where
  "nl = [0x0A]"

definition bindE :: "error + 'a \<Rightarrow> ('a \<Rightarrow> error + 'b) \<Rightarrow> error + 'b" where
  "bindE m f = (case m of Inl e \<Rightarrow> Inl e | Inr x \<Rightarrow> f x)"

subsection \<open>Number to string\<close>

definition digit :: "nat \<Rightarrow> char" where
  "digit n = ''0123456789'' ! n"

function decimal_nat :: "nat \<Rightarrow> string" where
  "decimal_nat n = (if n < 10 then [digit n] else decimal_nat (n div 10) @ [digit (n mod 10)])"
  by pat_completeness auto
termination
  by (relation "measure (\<lambda>n. n)") auto

definition decimal :: "int \<Rightarrow> string" where
  "decimal i = (if i < 0 then CHR ''-'' # decimal_nat (nat (- i)) else decimal_nat (nat i))"

text \<open>
  A number is an IEEE double. What \<^verbatim>\<open>JSON.parse\<close> returns for a number is a finite
  double, modelled by the real number it stands for (the two zeros are the one real 0:
  the handler cannot tell them apart), or an infinity when the literal overflows.
\<close>

datatype number = Finite real | PosInfinity | NegInfinity

subsection \<open>JavaScript values\<close>

text \<open>
  The values the handler computes with: what \<^verbatim>\<open>JSON.parse\<close> returns (null, booleans,
  numbers, strings, arrays, objects), \<^verbatim>\<open>undefined\<close>, and the built-in functions that a
  property read on a plain object finds on \<^verbatim>\<open>Object.prototype\<close>. An object is the list of
  its own properties; \<^term>\<open>map_of\<close> reads it.
\<close>

datatype js =
    Undefined
  | Null
  | Bool bool
  | Num number
  | Str jstring
  | Arr "js list"
  | Obj "(jstring \<times> js) list"
  | Fn jstring

text \<open>What \<^verbatim>\<open>hmac.update\<close> is given: a Buffer or a string.\<close>

datatype hmac_data = Raw "byte list" | Text jstring

text \<open>
  The platform:
  \<^item> \<^verbatim>\<open>crypto.createHmac("sha256", key).update(data).digest()\<close>;
  \<^item> the base64 encoding of a digest;
  \<^item> \<^verbatim>\<open>JSON.parse(body.toString("utf8"))\<close>, which is \<^term>\<open>None\<close> where it raises a
    SyntaxError;
  \<^item> \<^verbatim>\<open>Number.prototype.toString\<close>, used here for the numbers that are not integers of
    magnitude at most 2^53 (fractions in their shortest digits, large numbers with
    trailing zeros or an exponent);
  \<^item> \<^verbatim>\<open>v[k]\<close> for a value \<^verbatim>\<open>v\<close> that is a boolean, a number, a string, an array or a
    function and any name \<^verbatim>\<open>k\<close>: an index, the length, or a member of the prototype of
    that kind of value, which differ between versions of the platform.
\<close>

record platform =
  hmac_sha256 :: "jstring \<Rightarrow> hmac_data \<Rightarrow> byte list"
  base64 :: "byte list \<Rightarrow> jstring"
  JSON_parse :: "byte list \<Rightarrow> js option"
  Number_toString :: "number \<Rightarrow> jstring"
  member :: "js \<Rightarrow> jstring \<Rightarrow> js"

text \<open>
  The members of \<^verbatim>\<open>Object.prototype\<close>, which every plain object inherits. All are built-in
  functions, named as below, except the accessor \<^verbatim>\<open>__proto__\<close>, which yields
  \<^verbatim>\<open>Object.prototype\<close> itself: an object on which the handler could only read
  \<^verbatim>\<open>id\<close> and \<^verbatim>\<open>name\<close>, both undefined, as on an empty object.
\<close>

definition Object_prototype :: "(jstring \<times> js) list" where
  "Object_prototype =
     [(lit ''constructor'', Fn (lit ''Object'')),
      (lit ''hasOwnProperty'', Fn (lit ''hasOwnProperty'')),
      (lit ''isPrototypeOf'', Fn (lit ''isPrototypeOf'')),
      (lit ''propertyIsEnumerable'', Fn (lit ''propertyIsEnumerable'')),
      (lit ''toLocaleString'', Fn (lit ''toLocaleString'')),
      (lit ''toString'', Fn (lit ''toString'')),
      (lit ''valueOf'', Fn (lit ''valueOf'')),
      (lit ''__defineGetter__'', Fn (lit ''__defineGetter__'')),
      (lit ''__defineSetter__'', Fn (lit ''__defineSetter__'')),
      (lit ''__lookupGetter__'', Fn (lit ''__lookupGetter__'')),
      (lit ''__lookupSetter__'', Fn (lit ''__lookupSetter__'')),
      (lit ''__proto__'', Obj [])]"

text \<open>
  \<^verbatim>\<open>v.k\<close> for the names that the handler writes: a TypeError on undefined and null; on
  an object the own property, else the inherited one, else undefined. On the other
  kinds of value the equations cover those names: the field names of the
  payload (\<^verbatim>\<open>repository\<close>, \<^verbatim>\<open>full_name\<close>, \<^verbatim>\<open>action\<close>, \<^verbatim>\<open>issue\<close>, \<^verbatim>\<open>comment\<close>, \<^verbatim>\<open>sender\<close>,
  \<^verbatim>\<open>user\<close>, \<^verbatim>\<open>login\<close>, \<^verbatim>\<open>number\<close>, \<^verbatim>\<open>title\<close>, \<^verbatim>\<open>html_url\<close>, \<^verbatim>\<open>body\<close>), which no boolean,
  number, string or array has; \<^verbatim>\<open>length\<close>, read on a comment body; and \<^verbatim>\<open>id\<close> and
  \<^verbatim>\<open>name\<close>, read on the value found in the identity mapping, which may be a built-in
  function.
\<close>

fun get :: "js \<Rightarrow> jstring \<Rightarrow> error + js" where
  "get Undefined k = Inl TypeError"
| "get Null k = Inl TypeError"
| "get (Obj kvs) k =
     Inr (case map_of kvs k of
            Some v \<Rightarrow> v
          | None \<Rightarrow> (case map_of Object_prototype k of Some b \<Rightarrow> b | None \<Rightarrow> Undefined))"
| "get (Fn n) k = Inr (if k = lit ''name'' then Str n else Undefined)"
| "get (Str s) k =
     Inr (if k = lit ''length'' then Num (Finite (real (length s))) else Undefined)"
| "get (Arr xs) k =
     Inr (if k = lit ''length'' then Num (Finite (real (length xs))) else Undefined)"
| "get (Bool b) k = Inr Undefined"
| "get (Num n) k = Inr Undefined"

text \<open>
  \<^verbatim>\<open>v[k]\<close> for a computed name, as in \<^verbatim>\<open>USER_MAPPING[opener]\<close>: a TypeError on undefined
  and null, the own or inherited property on an object, and what the platform finds on
  any other value.
\<close>

definition get_computed :: "platform \<Rightarrow> js \<Rightarrow> jstring \<Rightarrow> error + js" where
  "get_computed P v k =
     (case v of
        Undefined \<Rightarrow> Inl TypeError
      | Null \<Rightarrow> Inl TypeError
      | Obj kvs \<Rightarrow> get (Obj kvs) k
      | _ \<Rightarrow> Inr (member P v k))"

text \<open>\<^verbatim>\<open>v?.k\<close>: undefined on undefined and null, else \<^verbatim>\<open>v.k\<close>.\<close>

definition opt_get :: "js \<Rightarrow> jstring \<Rightarrow> js" where
  "opt_get v k = (case get v k of Inl e \<Rightarrow> Undefined | Inr x \<Rightarrow> x)"

definition truthy :: "js \<Rightarrow> bool" where
  "truthy v =
     (case v of
        Undefined \<Rightarrow> False
      | Null \<Rightarrow> False
      | Bool b \<Rightarrow> b
      | Num n \<Rightarrow> (case n of Finite x \<Rightarrow> x \<noteq> 0 | _ \<Rightarrow> True)
      | Str s \<Rightarrow> s \<noteq> []
      | Arr xs \<Rightarrow> True
      | Obj kvs \<Rightarrow> True
      | Fn n \<Rightarrow> True)"

text \<open>\<^verbatim>\<open>v || d\<close>\<close>

definition or_else :: "js \<Rightarrow> js \<Rightarrow> js" where
  "or_else v d = (if truthy v then v else d)"

text \<open>
  The text of a number: an integer of magnitude at most 2^53 prints in decimal; the
  other finite numbers print as the platform has it.
\<close>

definition number_text :: "platform \<Rightarrow> number \<Rightarrow> jstring" where
  "number_text P n =
     (case n of
        Finite x \<Rightarrow>
          if x \<in> \<int> \<and> \<bar>x\<bar> \<le> 2 ^ 53 then lit (decimal \<lfloor>x\<rfloor>) else Number_toString P n
      | PosInfinity \<Rightarrow> lit ''Infinity''
      | NegInfinity \<Rightarrow> lit ''-Infinity'')"

text \<open>
  String conversion, as a template literal applies it to each substitution and a
  computed property read to its key. A plain object converts to \<^verbatim>\<open>[object Object]\<close>
  through the inherited \<^verbatim>\<open>toString\<close>; an own property of that name, which parsed JSON
  never makes callable, hides it, and the conversion raises a TypeError. An array joins
  its elements with commas, null and undefined elements as the empty string.
\<close>

fun ToString :: "platform \<Rightarrow> js \<Rightarrow> error + jstring"
  and join :: "platform \<Rightarrow> js list \<Rightarrow> error + jstring"
  and element :: "platform \<Rightarrow> js \<Rightarrow> error + jstring" where
  "ToString P Undefined = Inr (lit ''undefined'')"
| "ToString P Null = Inr (lit ''null'')"
| "ToString P (Bool b) = Inr (lit (if b then ''true'' else ''false''))"
| "ToString P (Num n) = Inr (number_text P n)"
| "ToString P (Str s) = Inr s"
| "ToString P (Arr xs) = join P xs"
| "ToString P (Obj kvs) =
     (if map_of kvs (lit ''toString'') = None then Inr (lit ''[object Object]'')
      else Inl TypeError)"
| "ToString P (Fn n) = Inr (lit ''function '' @ n @ lit ''() { [native code] }'')"
| "join P [] = Inr []"
| "join P [x] = element P x"
| "join P (x # y # ys) =
     bindE (element P x) (\<lambda>s. bindE (join P (y # ys)) (\<lambda>r. Inr (s @ lit '','' @ r)))"
| "element P Undefined = Inr []"
| "element P Null = Inr []"
| "element P (Bool b) = ToString P (Bool b)"
| "element P (Num n) = ToString P (Num n)"
| "element P (Str s) = ToString P (Str s)"
| "element P (Arr xs) = ToString P (Arr xs)"
| "element P (Obj kvs) = ToString P (Obj kvs)"
| "element P (Fn n) = ToString P (Fn n)"

subsection \<open>Configuration and requests\<close>

text \<open>
  The module-level constants, read once from the environment: an unset variable is
  \<^verbatim>\<open>undefined\<close>. \<^verbatim>\<open>ALLOWED_REPOS\<close> is a Set of strings and \<^verbatim>\<open>USER_MAPPING\<close> whatever
  \<^verbatim>\<open>JSON.parse\<close> returns for the configured text: an object as a rule, but any JSON value,
  null included; the empty object when the text is absent or malformed.
\<close>

record config =
  GITHUB_WEBHOOK_SECRET :: "jstring option"
  FEISHU_WEBHOOK_URL :: "jstring option"
  FEISHU_SIGN_SECRET :: jstring
  ALLOWED_REPOS :: "jstring fset"
  USER_MAPPING :: js

text \<open>
  A request: the three headers the handler reads (\<^term>\<open>None\<close> when absent), the bytes of
  its body, and whether \<^verbatim>\<open>express.raw\<close> has stored them as a Buffer in \<^verbatim>\<open>req.body\<close>. It
  does so for a request that has a body and a Content-Type; for any other request
  \<^verbatim>\<open>req.body\<close> is an empty object or undefined.
\<close>

record request =
  X_Hub_Signature_256 :: "string option"
  X_GitHub_Event :: "string option"
  X_GitHub_Delivery :: "string option"
  body :: "byte list"
  body_is_Buffer :: bool

text \<open>\<^verbatim>\<open>req.header(name) || ""\<close>\<close>

definition header_or_empty :: "string option \<Rightarrow> string" where
  "header_or_empty h = (case h of None \<Rightarrow> [] | Some v \<Rightarrow> v)"

text \<open>\<^verbatim>\<open>!s\<close> for a constant that is a string or undefined.\<close>

definition unset :: "jstring option \<Rightarrow> bool" where
  "unset s = (case s of None \<Rightarrow> True | Some v \<Rightarrow> v = [])"

subsection \<open>verifyGitHubSignature\<close>

text \<open>\<^verbatim>\<open>digest("hex")\<close>: two lowercase hexadecimal digits for each byte.\<close>

definition hex_digit :: "nat \<Rightarrow> char" where
  "hex_digit n = ''0123456789abcdef'' ! n"

definition hex_byte :: "byte \<Rightarrow> string" where
  "hex_byte b = [hex_digit (unat (drop_bit 4 b)), hex_digit (unat (b AND 15))]"

definition digest_hex :: "byte list \<Rightarrow> string" where
  "digest_hex bs = concat (map hex_byte bs)"

text \<open>
  \<^verbatim>\<open>Buffer.from(s)\<close> encodes the string in UTF-8: a code unit below 128 is one byte, one
  from 128 to 255 is two bytes.
\<close>

definition utf8_unit :: "char \<Rightarrow> byte list" where
  "utf8_unit c =
     (let n = (of_char c :: nat)
      in if n < 128 then [of_nat n]
         else [of_nat (192 + n div 64), of_nat (128 + n mod 64)])"

definition Buffer_from :: "string \<Rightarrow> byte list" where
  "Buffer_from s = concat (map utf8_unit s)"

text \<open>
  \<^verbatim>\<open>crypto.timingSafeEqual(a, b)\<close> raises a RangeError when the two buffers differ in
  byte length, and otherwise tells whether they are equal.
\<close>

definition timingSafeEqual :: "byte list \<Rightarrow> byte list \<Rightarrow> error + bool" where
  "timingSafeEqual a b = (if length a \<noteq> length b then Inl RangeError else Inr (a = b))"

text \<open>The string \<^verbatim>\<open>expected\<close> of verifyGitHubSignature, for a secret that is a string.\<close>

definition expected_signature :: "platform \<Rightarrow> jstring \<Rightarrow> byte list \<Rightarrow> string" where
  "expected_signature P secret raw = ''sha256='' @ digest_hex (hmac_sha256 P secret (Raw raw))"

text \<open>
  \<^verbatim>\<open>expected\<close> is computed first: \<^verbatim>\<open>createHmac\<close> raises a TypeError on a key that is
  undefined, and \<^verbatim>\<open>update\<close> one on a \<^verbatim>\<open>req.body\<close> that is not a Buffer.
\<close>

definition verifyGitHubSignature :: "platform \<Rightarrow> config \<Rightarrow> request \<Rightarrow> error + bool" where
  "verifyGitHubSignature P cfg req =
     (let sig = header_or_empty (X_Hub_Signature_256 req)
      in case GITHUB_WEBHOOK_SECRET cfg of
           None \<Rightarrow> Inl TypeError
         | Some secret \<Rightarrow>
             if \<not> body_is_Buffer req then Inl TypeError
             else
               (let expected = expected_signature P secret (body req)
                in if sig = [] \<or> length sig \<noteq> length expected then Inr False
                   else timingSafeEqual (Buffer_from sig) (Buffer_from expected)))"

subsection \<open>The outbound notification\<close>

text \<open>The elements of \<^verbatim>\<open>contentLines\<close>, by their tag: \<^verbatim>\<open>text\<close>, \<^verbatim>\<open>a\<close> and \<^verbatim>\<open>at\<close>.\<close>

datatype segment =
    TagText jstring
  | TagA jstring js
  | TagAt js js

text \<open>
  The JSON payload posted to Feishu: \<^verbatim>\<open>msg_type: "text"\<close> with its text, or
  \<^verbatim>\<open>msg_type: "post"\<close> with its title and content line, and the \<^verbatim>\<open>timestamp\<close> and
  \<^verbatim>\<open>sign\<close> fields when a signing secret is configured.
\<close>

datatype feishu_content = MsgText jstring | MsgPost jstring "segment list"

record feishu_payload =
  content :: feishu_content
  timestamp :: "jstring option"
  sign :: "jstring option"

record fetch_call =
  url :: "jstring option"
  json :: feishu_payload

text \<open>
  How the \<^verbatim>\<open>fetch\<close> ends: a response with its status and its body text (\<^term>\<open>None\<close> when
  reading the text fails), or a rejected promise.
\<close>

datatype fetch_outcome = Response nat "jstring option" | Rejected

text \<open>The error with which the send function's promise rejects.\<close>

datatype send_error = WebhookFailed nat jstring | FetchRejected

definition feishuSign :: "platform \<Rightarrow> jstring \<Rightarrow> jstring \<Rightarrow> jstring" where
  "feishuSign P timestampSec secret =
     base64 P (hmac_sha256 P secret (Text (timestampSec @ nl @ secret)))"

text \<open>\<^verbatim>\<open>resp.ok\<close> and the error thrown otherwise.\<close>

definition fetch_error :: "fetch_outcome \<Rightarrow> send_error option" where
  "fetch_error fo =
     (case fo of
        Rejected \<Rightarrow> Some FetchRejected
      | Response st txt \<Rightarrow>
          if 200 \<le> st \<and> st \<le> 299 then None
          else Some (WebhookFailed st (case txt of None \<Rightarrow> [] | Some t \<Rightarrow> t)))"

text \<open>
  Both send functions take the time in milliseconds (\<^verbatim>\<open>Date.now()\<close>) and the outcome
  of the fetch, and return the call they make and the error they end with, if any.
\<close>

definition sendFeishuText ::
  "platform \<Rightarrow> config \<Rightarrow> nat \<Rightarrow> fetch_outcome \<Rightarrow> jstring \<Rightarrow> fetch_call \<times> send_error option" where
  "sendFeishuText P cfg now fo text =
     (let payload = \<lparr>content = MsgText text, timestamp = None, sign = None\<rparr>;
          payload' =
            (if FEISHU_SIGN_SECRET cfg \<noteq> [] then
               (let ts = lit (decimal_nat (now div 1000))
                in payload\<lparr>timestamp := Some ts,
                           sign := Some (feishuSign P ts (FEISHU_SIGN_SECRET cfg))\<rparr>)
             else payload)
      in (\<lparr>url = FEISHU_WEBHOOK_URL cfg, json = payload'\<rparr>, fetch_error fo))"

definition sendFeishuPost ::
  "platform \<Rightarrow> config \<Rightarrow> nat \<Rightarrow> fetch_outcome \<Rightarrow> jstring \<Rightarrow> segment list
     \<Rightarrow> fetch_call \<times> send_error option" where
  "sendFeishuPost P cfg now fo title contentLines =
     (let payload = \<lparr>content = MsgPost title contentLines, timestamp = None, sign = None\<rparr>;
          payload' =
            (if FEISHU_SIGN_SECRET cfg \<noteq> [] then
               (let ts = lit (decimal_nat (now div 1000))
                in payload\<lparr>timestamp := Some ts,
                           sign := Some (feishuSign P ts (FEISHU_SIGN_SECRET cfg))\<rparr>)
             else payload)
      in (\<lparr>url = FEISHU_WEBHOOK_URL cfg, json = payload'\<rparr>, fetch_error fo))"

subsection \<open>The handler of POST /github/webhook\<close>

text \<open>
  What one run of the handler leaves behind: the response sent (\<^term>\<open>None\<close> when the
  handler raised before sending one), the exception that ended it, if any, the calls
  of \<^verbatim>\<open>fetch\<close>, and the console lines.
\<close>

record response =
  status :: nat
  sent :: string

datatype log_entry =
    Log_issue_closed jstring js
  | Log_ignored_event string js
  | Error_send_failed send_error

record result =
  response :: "response option"
  thrown :: "error option"
  outbound :: "fetch_call list"
  console :: "log_entry list"

definition respond :: "nat \<Rightarrow> string \<Rightarrow> result" where
  "respond st txt =
     \<lparr>response = Some \<lparr>status = st, sent = txt\<rparr>, thrown = None, outbound = [], console = []\<rparr>"

text \<open>\<^verbatim>\<open>payload?.repository?.full_name || ""\<close>\<close>

definition repo_of :: "js \<Rightarrow> js" where
  "repo_of payload =
     or_else (opt_get (opt_get payload (lit ''repository'')) (lit ''full_name'')) (Str [])"

text \<open>\<^verbatim>\<open>ALLOWED_REPOS.has(repo)\<close>: the set holds strings only.\<close>

definition has :: "jstring fset \<Rightarrow> js \<Rightarrow> bool" where
  "has S v = (case v of Str s \<Rightarrow> s |\<in>| S | _ \<Rightarrow> False)"

text \<open>
  The repository filter: the handler answers "Ignored repo" when
  \<^verbatim>\<open>ALLOWED_REPOS.size && !ALLOWED_REPOS.has(repo)\<close>, and goes on otherwise.
\<close>

definition allowed :: "js \<Rightarrow> jstring fset \<Rightarrow> bool" where
  "allowed repo allow_list = (\<not> (fcard allow_list \<noteq> 0 \<and> \<not> has allow_list repo))"

text \<open>\<^verbatim>\<open>payload?.action === a\<close>\<close>

definition action_is :: "js \<Rightarrow> string \<Rightarrow> bool" where
  "action_is payload a = (opt_get payload (lit ''action'') = Str (lit a))"

text \<open>
  issues.closed, lines 135 to 137: the issue, the opener's login (converted to a string, as
  the property read and the log line do) and the entry of the identity mapping.
\<close>

definition opener_of :: "js \<Rightarrow> error + js" where
  "opener_of issue =
     bindE (get issue (lit ''user'')) (\<lambda>user.
       Inr (or_else (opt_get user (lit ''login'')) (Str [])))"

definition closed_lookup ::
  "platform \<Rightarrow> config \<Rightarrow> js \<Rightarrow> error + (js \<times> jstring \<times> js)" where
  "closed_lookup P cfg payload =
     bindE (get payload (lit ''issue'')) (\<lambda>issue.
     bindE (opener_of issue) (\<lambda>opener.
     bindE (ToString P opener) (\<lambda>key.
     bindE (get_computed P (USER_MAPPING cfg) key) (\<lambda>feishuUserId.
       Inr (issue, key, feishuUserId)))))"

text \<open>issues.closed, lines 140 to 151: \<^verbatim>\<open>contentLines\<close>.\<close>

definition closed_lines :: "platform \<Rightarrow> js \<Rightarrow> js \<Rightarrow> js \<Rightarrow> error + segment list" where
  "closed_lines P payload issue feishuUserId =
     bindE (get issue (lit ''number'')) (\<lambda>n. bindE (ToString P n) (\<lambda>number.
     bindE (get issue (lit ''title'')) (\<lambda>t. bindE (ToString P t) (\<lambda>title.
     bindE (get issue (lit ''html_url'')) (\<lambda>href.
     bindE (get payload (lit ''sender'')) (\<lambda>sender.
     bindE (ToString P (or_else (opt_get sender (lit ''login'')) (Str (lit ''unknown''))))
       (\<lambda>by.
       (let contentLines =
              [TagText (lit ''Issue #'' @ number @ lit '' '' @ [0x5DF2, 0x5173, 0x95ED] @ nl),
               TagText (title @ nl),
               TagA [0x67E5, 0x770B, 0x8BE6, 0x60C5] href,
               TagText (nl @ lit ''by '' @ by)]
        in if truthy feishuUserId then
             bindE (get feishuUserId (lit ''id'')) (\<lambda>user_id.
             bindE (get feishuUserId (lit ''name'')) (\<lambda>user_name.
               Inr (contentLines @ [TagText nl, TagAt user_id user_name])))
           else Inr contentLines))))))))"

definition issues_closed ::
  "platform \<Rightarrow> config \<Rightarrow> nat \<Rightarrow> fetch_outcome \<Rightarrow> js \<Rightarrow> js \<Rightarrow> result" where
  "issues_closed P cfg now fo repo payload =
     (case closed_lookup P cfg payload of
        Inl e \<Rightarrow> \<lparr>response = None, thrown = Some e, outbound = [], console = []\<rparr>
      | Inr (issue, opener, feishuUserId) \<Rightarrow>
          (let logged = [Log_issue_closed
                           (lit ''Issue closed by '' @ opener @ lit '', feishuUserId:'')
                           feishuUserId]
           in case closed_lines P payload issue feishuUserId of
                Inl e \<Rightarrow>
                  \<lparr>response = None, thrown = Some e, outbound = [], console = logged\<rparr>
              | Inr contentLines \<Rightarrow>
                  (let res = Some \<lparr>status = 202, sent = ''Accepted''\<rparr>
                   in case ToString P repo of
                        Inl e \<Rightarrow>
                          \<lparr>response = res, thrown = Some e, outbound = [],
                            console = logged\<rparr>
                      | Inr r \<Rightarrow>
                          (let (call, err) =
                                 sendFeishuPost P cfg now fo
                                   ([0x2705] @ lit '' ['' @ r @ lit '']'') contentLines
                           in \<lparr>response = res, thrown = None, outbound = [call],
                                console = logged @
                                  (case err of None \<Rightarrow> []
                                   | Some e \<Rightarrow> [Error_send_failed e])\<rparr>))))"

text \<open>
  issue_comment.created. \<^verbatim>\<open>b?.slice(0, 200)\<close> is a TypeError on a value that is
  neither undefined, null, a string nor an array: it has no callable \<^verbatim>\<open>slice\<close>.
\<close>

definition opt_slice_200 :: "js \<Rightarrow> error + js" where
  "opt_slice_200 b =
     (case b of
        Undefined \<Rightarrow> Inr Undefined
      | Null \<Rightarrow> Inr Undefined
      | Str s \<Rightarrow> Inr (Str (take 200 s))
      | Arr xs \<Rightarrow> Inr (Arr (take 200 xs))
      | _ \<Rightarrow> Inl TypeError)"

text \<open>\<^verbatim>\<open>v > 200\<close> for \<^verbatim>\<open>v\<close> a length or undefined.\<close>

definition gt_200 :: "js \<Rightarrow> bool" where
  "gt_200 v =
     (case v of
        Num n \<Rightarrow> (case n of Finite x \<Rightarrow> 200 < x | PosInfinity \<Rightarrow> True | NegInfinity \<Rightarrow> False)
      | _ \<Rightarrow> False)"

text \<open>
  The two substitutions of the comment body:
  \<^verbatim>\<open>${comment.body?.slice(0, 200) || ""}${comment.body?.length > 200 ? "..." : ""}\<close>
\<close>

definition comment_body_text :: "platform \<Rightarrow> js \<Rightarrow> error + jstring" where
  "comment_body_text P b =
     bindE (opt_slice_200 b) (\<lambda>sliced.
     bindE (ToString P (or_else sliced (Str []))) (\<lambda>s.
       Inr (s @ (if gt_200 (opt_get b (lit ''length'')) then lit ''...'' else []))))"

text \<open>Line 162: \<^verbatim>\<open>text\<close>.\<close>

definition comment_text :: "platform \<Rightarrow> js \<Rightarrow> js \<Rightarrow> error + jstring" where
  "comment_text P repo payload =
     bindE (get payload (lit ''issue'')) (\<lambda>issue.
     bindE (get payload (lit ''comment'')) (\<lambda>comment.
     bindE (ToString P repo) (\<lambda>r.
     bindE (get issue (lit ''number'')) (\<lambda>n. bindE (ToString P n) (\<lambda>number.
     bindE (get issue (lit ''title'')) (\<lambda>t. bindE (ToString P t) (\<lambda>title.
     bindE (get comment (lit ''user'')) (\<lambda>user.
     bindE (ToString P (or_else (opt_get user (lit ''login'')) (Str (lit ''unknown''))))
       (\<lambda>by.
     bindE (get comment (lit ''body'')) (\<lambda>b. bindE (comment_body_text P b) (\<lambda>shown.
     bindE (get comment (lit ''html_url'')) (\<lambda>u. bindE (ToString P u) (\<lambda>html_url.
       Inr ([0xD83D, 0xDCAC] @ lit '' ['' @ r @ lit ''] Issue #'' @ number @ lit '' ''
              @ [0x65B0, 0x8BC4, 0x8BBA] @ nl @ title @ nl @ lit ''by '' @ by @ nl @ nl
              @ shown @ nl @ html_url))))))))))))))"

definition issue_comment_created ::
  "platform \<Rightarrow> config \<Rightarrow> nat \<Rightarrow> fetch_outcome \<Rightarrow> js \<Rightarrow> js \<Rightarrow> result" where
  "issue_comment_created P cfg now fo repo payload =
     (case comment_text P repo payload of
        Inl e \<Rightarrow> \<lparr>response = None, thrown = Some e, outbound = [], console = []\<rparr>
      | Inr text \<Rightarrow>
          (let (call, err) = sendFeishuText P cfg now fo text
           in \<lparr>response = Some \<lparr>status = 202, sent = ''Accepted''\<rparr>, thrown = None,
                outbound = [call],
                console = (case err of None \<Rightarrow> [] | Some e \<Rightarrow> [Error_send_failed e])\<rparr>))"

text \<open>
  \<^verbatim>\<open>JSON.parse(req.body.toString("utf8"))\<close> inside \<^verbatim>\<open>try\<close>: \<^term>\<open>None\<close> where it raises.
  On a \<^verbatim>\<open>req.body\<close> that is not a Buffer it raises too: the text of an empty object is
  no JSON, and undefined has no \<^verbatim>\<open>toString\<close>.
\<close>

definition parse_body :: "platform \<Rightarrow> request \<Rightarrow> js option" where
  "parse_body P req = (if body_is_Buffer req then JSON_parse P (body req) else None)"

definition handler ::
  "platform \<Rightarrow> config \<Rightarrow> nat \<Rightarrow> fetch_outcome \<Rightarrow> request \<Rightarrow> result" where
  "handler P cfg now fo req =
     (if unset (GITHUB_WEBHOOK_SECRET cfg) \<or> unset (FEISHU_WEBHOOK_URL cfg) then
        respond 500 ''Server not configured''
      else
        case verifyGitHubSignature P cfg req of
          Inl e \<Rightarrow> \<lparr>response = None, thrown = Some e, outbound = [], console = []\<rparr>
        | Inr valid \<Rightarrow>
            if \<not> valid then respond 401 ''Invalid signature''
            else
              (let event = header_or_empty (X_GitHub_Event req);
                   deliveryId = header_or_empty (X_GitHub_Delivery req)
               in case parse_body P req of
                    None \<Rightarrow> respond 400 ''Bad JSON''
                  | Some payload \<Rightarrow>
                      (let repo = repo_of payload
                       in if \<not> allowed repo (ALLOWED_REPOS cfg) then
                            respond 200 ''Ignored repo''
                          else if event = ''issues'' \<and> action_is payload ''closed'' then
                            issues_closed P cfg now fo repo payload
                          else if event = ''issue_comment'' \<and> action_is payload ''created'' then
                            issue_comment_created P cfg now fo repo payload
                          else
                            (respond 200 ''Ignored event'')
                              \<lparr>console := [Log_ignored_event event payload]\<rparr>)))"

text \<open>
  The application keeps no state from one request to the next: each inbound POST, with
  the clock and the fate of its outbound call, is handled on its own.
\<close>

definition serve ::
  "platform \<Rightarrow> config \<Rightarrow> (nat \<times> fetch_outcome \<times> request) list \<Rightarrow> result list" where
  "serve P cfg deliveries = map (\<lambda>(now, fo, req). handler P cfg now fo req) deliveries"

subsection \<open>Notions used to state the properties\<close>

text \<open>A code unit below 128: the characters that UTF-8 encodes in one byte.\<close>

definition ascii :: "char \<Rightarrow> bool" where
  "ascii c = ((of_char c :: nat) < 128)"

text \<open>The pairs of event and action that the handler routes to a notification.\<close>

definition recognized :: "string \<Rightarrow> js \<Rightarrow> bool" where
  "recognized event payload =
     (event = ''issues'' \<and> action_is payload ''closed''
      \<or> event = ''issue_comment'' \<and> action_is payload ''created'')"

text \<open>
  The status as the specification words it, by the first failing stage: 500 when the
  secret or the webhook URL is unset, else 401 when the signature header is not the
  expected string, else 400 when the body is not JSON, else 200 when the repository is
  filtered out or the pair of event and action is not recognized, else 202.
\<close>

definition spec_status :: "platform \<Rightarrow> config \<Rightarrow> request \<Rightarrow> nat" where
  "spec_status P cfg req =
     (case GITHUB_WEBHOOK_SECRET cfg of
        None \<Rightarrow> 500
      | Some secret \<Rightarrow>
          if secret = [] \<or> unset (FEISHU_WEBHOOK_URL cfg) then 500
          else if X_Hub_Signature_256 req \<noteq> Some (expected_signature P secret (body req))
          then 401
          else
            (case JSON_parse P (body req) of
               None \<Rightarrow> 400
             | Some payload \<Rightarrow>
                 if \<not> allowed (repo_of payload) (ALLOWED_REPOS cfg)
                    \<or> \<not> recognized (header_or_empty (X_GitHub_Event req)) payload
                 then 200
                 else 202))"

text \<open>
  An accepted delivery, as the specification words it: the signature is valid, the
  repository is allowed and the pair of event and action is recognized.
\<close>

definition accepted :: "platform \<Rightarrow> config \<Rightarrow> request \<Rightarrow> bool" where
  "accepted P cfg req =
     (case GITHUB_WEBHOOK_SECRET cfg of
        None \<Rightarrow> False
      | Some secret \<Rightarrow>
          secret \<noteq> [] \<and> \<not> unset (FEISHU_WEBHOOK_URL cfg)
          \<and> X_Hub_Signature_256 req = Some (expected_signature P secret (body req))
          \<and> (case JSON_parse P (body req) of
                 None \<Rightarrow> False
               | Some payload \<Rightarrow>
                   allowed (repo_of payload) (ALLOWED_REPOS cfg)
                   \<and> recognized (header_or_empty (X_GitHub_Event req)) payload))"

text \<open>The rendered message of each outbound call, without timestamp and signature.\<close>

definition messages :: "result \<Rightarrow> feishu_content list" where
  "messages r = map (\<lambda>c. content (json c)) (outbound r)"

text \<open>The \<^verbatim>\<open>at\<close> segments of a content line.\<close>

definition is_at :: "segment \<Rightarrow> bool" where
  "is_at sg = (case sg of TagAt i n \<Rightarrow> True | _ \<Rightarrow> False)"

text \<open>What the rejection handler of a send prints on the error console.\<close>

definition reported :: "fetch_outcome \<Rightarrow> log_entry list" where
  "reported fo = (case fetch_error fo of None \<Rightarrow> [] | Some e \<Rightarrow> [Error_send_failed e])"

text \<open>The text of a substitution \<^verbatim>\<open>${v.k}\<close>.\<close>

definition field_text :: "platform \<Rightarrow> js \<Rightarrow> jstring \<Rightarrow> error + jstring" where
  "field_text P v k = bindE (get v k) (ToString P)"

text \<open>The two segments pushed for an entry of the identity mapping that is truthy.\<close>

definition mention :: "js \<Rightarrow> segment list" where
  "mention entry =
     (if truthy entry then
        [TagText nl, TagAt (opt_get entry (lit ''id'')) (opt_get entry (lit ''name''))]
      else [])"

text \<open>
  Payloads as GitHub sends them for the two recognized pairs: values that are neither
  arrays, objects nor functions convert to a string without fail.
\<close>

definition primitive :: "js \<Rightarrow> bool" where
  "primitive v = (case v of Arr xs \<Rightarrow> False | Obj kvs \<Rightarrow> False | Fn n \<Rightarrow> False | _ \<Rightarrow> True)"

text \<open>Neither undefined nor null.\<close>

definition present :: "js \<Rightarrow> bool" where
  "present v = (v \<noteq> Undefined \<and> v \<noteq> Null)"

text \<open>
  The payload has what the renderer of its pair reads: the issue (and the comment), and
  plain values, or none, in the fields that are converted to strings; the comment body is
  a string or missing.
\<close>

definition well_shaped :: "string \<Rightarrow> js \<Rightarrow> bool" where
  "well_shaped event payload =
     (let issue = opt_get payload (lit ''issue'');
          comment = opt_get payload (lit ''comment'')
      in if event = ''issues'' \<and> action_is payload ''closed'' then
           present issue
           \<and> primitive (repo_of payload)
           \<and> primitive (opt_get issue (lit ''number''))
           \<and> primitive (opt_get issue (lit ''title''))
           \<and> primitive (opt_get (opt_get issue (lit ''user'')) (lit ''login''))
           \<and> primitive (opt_get (opt_get payload (lit ''sender'')) (lit ''login''))
         else if event = ''issue_comment'' \<and> action_is payload ''created'' then
           present issue \<and> present comment
           \<and> primitive (repo_of payload)
           \<and> primitive (opt_get issue (lit ''number''))
           \<and> primitive (opt_get issue (lit ''title''))
           \<and> primitive (opt_get (opt_get comment (lit ''user'')) (lit ''login''))
           \<and> primitive (opt_get comment (lit ''html_url''))
           \<and> (case opt_get comment (lit ''body'') of
                  Undefined \<Rightarrow> True | Null \<Rightarrow> True | Str s \<Rightarrow> True | _ \<Rightarrow> False)
         else True)"

subsection \<open>Concrete requests\<close>

text \<open>
  The closed instances below run the handler on concrete requests. They need some
  platform: a stand-in digest (the theorems they instantiate hold for every digest
  function), the values \<^verbatim>\<open>JSON.parse\<close> returns on the bodies used, and stand-ins for
  the printing of large numbers and the members of built-in prototypes, which these
  requests do not use.
\<close>

definition utf8_bytes :: "string \<Rightarrow> byte list" where
  "utf8_bytes s = map (\<lambda>c. of_nat (of_char c)) s"

definition stub_hmac :: "jstring \<Rightarrow> hmac_data \<Rightarrow> byte list" where
  "stub_hmac key d =
     [of_nat (length key), of_nat (case d of Raw b \<Rightarrow> length b | Text t \<Rightarrow> length t)]"

definition body_closed :: "byte list" where
  \<open>body_closed = utf8_bytes
     (''{"action":"closed","repository":{"full_name":"a/b"},''
      @ ''"issue":{"number":7,"title":"Bug","html_url":"https://x/7","user":{"login":"alice"}},''
      @ ''"sender":{"login":"bob"}}'')\<close>

definition payload_closed :: js where
  "payload_closed =
     Obj [(lit ''action'', Str (lit ''closed'')),
          (lit ''repository'', Obj [(lit ''full_name'', Str (lit ''a/b''))]),
          (lit ''issue'',
             Obj [(lit ''number'', Num (Finite 7)), (lit ''title'', Str (lit ''Bug'')),
                  (lit ''html_url'', Str (lit ''https://x/7'')),
                  (lit ''user'', Obj [(lit ''login'', Str (lit ''alice''))])]),
          (lit ''sender'', Obj [(lit ''login'', Str (lit ''bob''))])]"

definition body_closed_by_constructor :: "byte list" where
  \<open>body_closed_by_constructor = utf8_bytes
     (''{"action":"closed","repository":{"full_name":"a/b"},''
      @ ''"issue":{"number":7,"title":"Bug","html_url":"https://x/7","user":{"login":"constructor"}},''
      @ ''"sender":{"login":"bob"}}'')\<close>

definition payload_closed_by_constructor :: js where
  "payload_closed_by_constructor =
     Obj [(lit ''action'', Str (lit ''closed'')),
          (lit ''repository'', Obj [(lit ''full_name'', Str (lit ''a/b''))]),
          (lit ''issue'',
             Obj [(lit ''number'', Num (Finite 7)), (lit ''title'', Str (lit ''Bug'')),
                  (lit ''html_url'', Str (lit ''https://x/7'')),
                  (lit ''user'', Obj [(lit ''login'', Str (lit ''constructor''))])]),
          (lit ''sender'', Obj [(lit ''login'', Str (lit ''bob''))])]"

definition body_closed_anonymous :: "byte list" where
  \<open>body_closed_anonymous = utf8_bytes
     (''{"action":"closed","repository":{"full_name":"a/b"},''
      @ ''"issue":{"number":7,"title":"Bug","html_url":"https://x/7"}}'')\<close>

definition payload_closed_anonymous :: js where
  "payload_closed_anonymous =
     Obj [(lit ''action'', Str (lit ''closed'')),
          (lit ''repository'', Obj [(lit ''full_name'', Str (lit ''a/b''))]),
          (lit ''issue'',
             Obj [(lit ''number'', Num (Finite 7)), (lit ''title'', Str (lit ''Bug'')),
                  (lit ''html_url'', Str (lit ''https://x/7''))])]"

definition body_closed_bare :: "byte list" where
  \<open>body_closed_bare = utf8_bytes ''{"action":"closed","repository":{"full_name":"a/b"}}''\<close>

definition payload_closed_bare :: js where
  "payload_closed_bare =
     Obj [(lit ''action'', Str (lit ''closed'')),
          (lit ''repository'', Obj [(lit ''full_name'', Str (lit ''a/b''))])]"

definition body_comment :: "byte list" where
  \<open>body_comment = utf8_bytes
     (''{"action":"created","repository":{"full_name":"a/b"},''
      @ ''"issue":{"number":7,"title":"Bug"},''
      @ ''"comment":{"body":"'' @ replicate 250 CHR ''x'' @ ''","html_url":"https://x/7#c"}}'')\<close>

definition payload_comment :: js where
  "payload_comment =
     Obj [(lit ''action'', Str (lit ''created'')),
          (lit ''repository'', Obj [(lit ''full_name'', Str (lit ''a/b''))]),
          (lit ''issue'', Obj [(lit ''number'', Num (Finite 7)), (lit ''title'', Str (lit ''Bug''))]),
          (lit ''comment'',
             Obj [(lit ''body'', Str (lit (replicate 250 CHR ''x''))),
                  (lit ''html_url'', Str (lit ''https://x/7#c''))])]"

definition body_comment_bare :: "byte list" where
  \<open>body_comment_bare = utf8_bytes ''{"action":"created","repository":{"full_name":"a/b"}}''\<close>

definition payload_comment_bare :: js where
  "payload_comment_bare =
     Obj [(lit ''action'', Str (lit ''created'')),
          (lit ''repository'', Obj [(lit ''full_name'', Str (lit ''a/b''))])]"

definition body_closed_odd_repository :: "byte list" where
  \<open>body_closed_odd_repository = utf8_bytes
     (''{"action":"closed","repository":{"full_name":{"toString":1}},''
      @ ''"issue":{"number":7,"title":"Bug","html_url":"https://x/7","user":{"login":"alice"}},''
      @ ''"sender":{"login":"bob"}}'')\<close>

definition payload_closed_odd_repository :: js where
  "payload_closed_odd_repository =
     Obj [(lit ''action'', Str (lit ''closed'')),
          (lit ''repository'',
             Obj [(lit ''full_name'', Obj [(lit ''toString'', Num (Finite 1))])]),
          (lit ''issue'',
             Obj [(lit ''number'', Num (Finite 7)), (lit ''title'', Str (lit ''Bug'')),
                  (lit ''html_url'', Str (lit ''https://x/7'')),
                  (lit ''user'', Obj [(lit ''login'', Str (lit ''alice''))])]),
          (lit ''sender'', Obj [(lit ''login'', Str (lit ''bob''))])]"

definition demo_parse :: "byte list \<Rightarrow> js option" where
  "demo_parse b =
     map_of [(body_closed, payload_closed),
             (body_closed_by_constructor, payload_closed_by_constructor),
             (body_closed_anonymous, payload_closed_anonymous),
             (body_closed_bare, payload_closed_bare),
             (body_comment, payload_comment),
             (body_comment_bare, payload_comment_bare),
             (body_closed_odd_repository, payload_closed_odd_repository)] b"

definition demo_platform :: platform where
  "demo_platform =
     \<lparr>hmac_sha256 = stub_hmac, base64 = (\<lambda>bs. lit (digest_hex bs)), JSON_parse = demo_parse,
      Number_toString = (\<lambda>n. lit ''1e+21''), member = (\<lambda>v k. Undefined)\<rparr>"

definition demo_config :: config where
  "demo_config =
     \<lparr>GITHUB_WEBHOOK_SECRET = Some (lit ''s3cret''),
      FEISHU_WEBHOOK_URL = Some (lit ''https://open.feishu.cn/hook''),
      FEISHU_SIGN_SECRET = [],
      ALLOWED_REPOS = {|lit ''a/b''|},
      USER_MAPPING =
        Obj [(lit ''alice'',
              Obj [(lit ''id'', Str (lit ''ou_1'')), (lit ''name'', Str (lit ''Alice''))])]\<rparr>"

text \<open>The request for an event with a raw body, signed with the configured secret.\<close>

definition signed_request :: "string \<Rightarrow> byte list \<Rightarrow> request" where
  "signed_request event raw =
     \<lparr>X_Hub_Signature_256 = Some (expected_signature demo_platform (lit ''s3cret'') raw),
      X_GitHub_Event = Some event,
      X_GitHub_Delivery = Some ''72d3162e-cc78-11e3-81ab-4c9367dc0958'',
      body = raw, body_is_Buffer = True\<rparr>"

section \<open>Basic facts\<close>

lemma bindE_Inl [simp]: "bindE (Inl e) f = Inl e"
  by (simp add: bindE_def)

lemma bindE_Inr [simp]: "bindE (Inr x) f = f x"
  by (simp add: bindE_def)

lemma of_char_less_256: "(of_char c :: nat) < 256"
  by (metis of_char_mod_256 mod_less_divisor zero_less_numeral)

lemma unat_unit: "unat (of_char c :: 16 word) = of_char c"
proof -
  have "(of_char c :: 16 word) = of_nat (of_char c)"
    by (simp add: of_nat_of_char)
  moreover have "(of_char c :: nat) < 2 ^ LENGTH(16)"
    by (rule less_trans [OF of_char_less_256]) simp
  ultimately show ?thesis
    by (simp only: unat_of_nat mod_less)
qed

lemma unit_eq_iff [simp]: "(of_char c :: 16 word) = of_char d \<longleftrightarrow> c = d"
proof
  assume "(of_char c :: 16 word) = of_char d"
  then have "unat (of_char c :: 16 word) = unat (of_char d :: 16 word)" by simp
  then show "c = d" by (simp add: unat_unit)
qed simp

lemma lit_eq_iff [simp]: "lit a = lit b \<longleftrightarrow> a = b"
  unfolding lit_def by (rule inj_map_eq_map) (simp add: inj_on_def)

lemma lit_Nil [simp]: "lit [] = []"
  by (simp add: lit_def)

lemma lit_eq_Nil [simp]: "lit a = [] \<longleftrightarrow> a = []"
  by (simp add: lit_def)

lemma Nil_eq_lit [simp]: "[] = lit a \<longleftrightarrow> a = []"
  by (simp add: lit_def)

lemma length_lit [simp]: "length (lit a) = length a"
  by (simp add: lit_def)

lemma lit_append: "lit (a @ b) = lit a @ lit b"
  by (simp add: lit_def)

section \<open>Signature verification\<close>

lemma utf8_unit_ascii: "ascii c \<Longrightarrow> utf8_unit c = [of_nat (of_char c)]"
  by (simp add: utf8_unit_def ascii_def)

lemma length_utf8_unit: "length (utf8_unit c) = (if ascii c then 1 else 2)"
  by (simp add: utf8_unit_def ascii_def Let_def)

lemma Buffer_from_ascii:
  "list_all ascii s \<Longrightarrow> Buffer_from s = map (\<lambda>c. of_nat (of_char c)) s"
  by (induction s) (simp_all add: Buffer_from_def utf8_unit_ascii)

lemma length_Buffer_from:
  "length (Buffer_from s) = length s + length (filter (\<lambda>c. \<not> ascii c) s)"
  by (induction s) (simp_all add: Buffer_from_def length_utf8_unit)

lemma Buffer_from_same_length:
  "length (Buffer_from s) = length s \<longleftrightarrow> list_all ascii s"
  by (simp add: length_Buffer_from filter_empty_conv list_all_iff)

lemma byte_of_char_inj: "(of_nat (of_char c) :: byte) = of_nat (of_char d) \<longleftrightarrow> c = d"
proof
  assume eq: "(of_nat (of_char c) :: byte) = of_nat (of_char d)"
  have "unat (of_nat (of_char c) :: byte) = of_char c" for c
    using of_char_less_256 [of c] by (simp only: unat_of_nat) simp
  with eq have "(of_char c :: nat) = of_char d" by metis
  then show "c = d" by simp
qed simp

lemma map_byte_inj:
  "map (\<lambda>c. of_nat (of_char c) :: byte) s = map (\<lambda>c. of_nat (of_char c)) t \<longleftrightarrow> s = t"
  by (rule inj_map_eq_map) (simp add: inj_on_def byte_of_char_inj)

lemma hex_digit_ascii: "n < 16 \<Longrightarrow> ascii (hex_digit n)"
proof -
  assume "n < 16"
  then have "hex_digit n \<in> set ''0123456789abcdef''"
    unfolding hex_digit_def by (intro nth_mem) simp
  moreover have "\<forall>c \<in> set ''0123456789abcdef''. ascii c"
    by (simp add: ascii_def)
  ultimately show ?thesis by blast
qed

lemma high_nibble_less: "unat (drop_bit 4 (b :: byte)) < 16"
proof -
  have "unat (drop_bit 4 b) = unat b div 2 ^ 4"
    by (simp add: unat_drop_bit_eq drop_bit_eq_div unat_div)
  moreover have "unat b < 256"
    using unsigned_less [of b] by simp
  ultimately show ?thesis by simp
qed

lemma low_nibble_less: "unat ((b :: byte) AND 15) < 16"
proof -
  have "unat (b AND 15) \<le> unat (15 :: byte)"
    by (rule word_and_le1 [THEN word_le_nat_alt [THEN iffD1]])
  then show ?thesis by simp
qed

lemma hex_byte_ascii: "list_all ascii (hex_byte b)"
  by (simp add: hex_byte_def hex_digit_ascii high_nibble_less low_nibble_less)

lemma digest_hex_ascii: "list_all ascii (digest_hex bs)"
  by (induction bs) (simp_all add: digest_hex_def hex_byte_ascii)

lemma length_digest_hex: "length (digest_hex bs) = 2 * length bs"
  by (induction bs) (simp_all add: digest_hex_def hex_byte_def)

lemma expected_signature_ascii: "list_all ascii (expected_signature P s raw)"
  by (simp add: expected_signature_def digest_hex_ascii ascii_def)

lemma expected_signature_not_Nil: "expected_signature P s raw \<noteq> []"
  by (simp add: expected_signature_def)

text \<open>
  With a secret that is a string, the verification returns true on exactly one header:
  the scheme tag followed by the lowercase hexadecimal digest.
\<close>

lemma verify_true_iff:
  assumes "GITHUB_WEBHOOK_SECRET cfg = Some s"
  shows "verifyGitHubSignature P cfg req = Inr True
           \<longleftrightarrow> body_is_Buffer req
               \<and> X_Hub_Signature_256 req = Some (expected_signature P s (body req))"
proof
  let ?e = "expected_signature P s (body req)"
  assume "body_is_Buffer req \<and> X_Hub_Signature_256 req = Some ?e"
  then show "verifyGitHubSignature P cfg req = Inr True"
    using assms
    by (simp add: verifyGitHubSignature_def header_or_empty_def timingSafeEqual_def
        expected_signature_not_Nil)
next
  let ?e = "expected_signature P s (body req)"
  let ?sig = "header_or_empty (X_Hub_Signature_256 req)"
  assume v: "verifyGitHubSignature P cfg req = Inr True"
  have buf: "body_is_Buffer req"
    using v assms by (auto simp: verifyGitHubSignature_def Let_def split: if_splits)
  have ne: "?sig \<noteq> []" and len: "length ?sig = length ?e"
    and tse: "timingSafeEqual (Buffer_from ?sig) (Buffer_from ?e) = Inr True"
    using v assms by (auto simp: verifyGitHubSignature_def Let_def split: if_splits)
  have be: "Buffer_from ?e = map (\<lambda>c. of_nat (of_char c)) ?e"
    by (rule Buffer_from_ascii) (rule expected_signature_ascii)
  from tse have eq: "Buffer_from ?sig = Buffer_from ?e"
    by (auto simp: timingSafeEqual_def split: if_splits)
  then have "length (Buffer_from ?sig) = length ?sig"
    using be len by simp
  then have "list_all ascii ?sig"
    by (simp add: Buffer_from_same_length)
  then have "Buffer_from ?sig = map (\<lambda>c. of_nat (of_char c)) ?sig"
    by (rule Buffer_from_ascii)
  with eq be have "?sig = ?e"
    by (simp add: map_byte_inj)
  with ne have "X_Hub_Signature_256 req = Some ?e"
    by (cases "X_Hub_Signature_256 req") (simp_all add: header_or_empty_def)
  with buf show "body_is_Buffer req \<and> X_Hub_Signature_256 req = Some ?e"
    by simp
qed

lemma verify_raises_without_Buffer:
  "\<not> body_is_Buffer req \<Longrightarrow> verifyGitHubSignature P cfg req = Inl TypeError"
  by (simp add: verifyGitHubSignature_def Let_def split: option.splits)

lemma verify_returned_Buffer:
  "verifyGitHubSignature P cfg req = Inr valid \<Longrightarrow> body_is_Buffer req"
  using verify_raises_without_Buffer [of req P cfg] by auto

text \<open>
  It returns false, without raising, on every other header that has another length or
  is made of ASCII characters.
\<close>

lemma verify_false:
  assumes "GITHUB_WEBHOOK_SECRET cfg = Some secret" and "body_is_Buffer req"
    and "X_Hub_Signature_256 req \<noteq> Some (expected_signature P secret (body req))"
    and "length (header_or_empty (X_Hub_Signature_256 req))
           \<noteq> length (expected_signature P secret (body req))
         \<or> list_all ascii (header_or_empty (X_Hub_Signature_256 req))"
  shows "verifyGitHubSignature P cfg req = Inr False"
proof -
  let ?e = "expected_signature P secret (body req)"
  let ?sig = "header_or_empty (X_Hub_Signature_256 req)"
  show ?thesis
  proof (cases "?sig = [] \<or> length ?sig \<noteq> length ?e")
    case True
    then show ?thesis
      using assms(1,2) by (auto simp: verifyGitHubSignature_def Let_def)
  next
    case False
    then have ne: "?sig \<noteq> []" and len: "length ?sig = length ?e" by simp_all
    with assms(4) have a: "list_all ascii ?sig" by simp
    from ne have h: "X_Hub_Signature_256 req = Some ?sig"
      by (cases "X_Hub_Signature_256 req") (simp_all add: header_or_empty_def)
    with assms(3) have neq: "?sig \<noteq> ?e" by auto
    have "Buffer_from ?sig = map (\<lambda>c. of_nat (of_char c)) ?sig"
      using a by (rule Buffer_from_ascii)
    moreover have "Buffer_from ?e = map (\<lambda>c. of_nat (of_char c)) ?e"
      by (rule Buffer_from_ascii) (rule expected_signature_ascii)
    ultimately have "timingSafeEqual (Buffer_from ?sig) (Buffer_from ?e) = Inr False"
      using len neq by (simp add: timingSafeEqual_def map_byte_inj)
    then show ?thesis
      using assms(1,2) ne len by (simp add: verifyGitHubSignature_def)
  qed
qed

section \<open>The stages of the handler\<close>

text \<open>The handler stage by stage: configuration, signature, decoding, filter and route.\<close>

lemma handler_unconfigured:
  "unset (GITHUB_WEBHOOK_SECRET cfg) \<or> unset (FEISHU_WEBHOOK_URL cfg)
   \<Longrightarrow> handler P cfg now fo req = respond 500 ''Server not configured''"
  by (simp add: handler_def)

lemma handler_verify_raises:
  "\<not> unset (GITHUB_WEBHOOK_SECRET cfg) \<Longrightarrow> \<not> unset (FEISHU_WEBHOOK_URL cfg)
   \<Longrightarrow> verifyGitHubSignature P cfg req = Inl e
   \<Longrightarrow> handler P cfg now fo req = \<lparr>response = None, thrown = Some e, outbound = [], console = []\<rparr>"
  by (simp add: handler_def)

lemma handler_invalid_signature:
  "\<not> unset (GITHUB_WEBHOOK_SECRET cfg) \<Longrightarrow> \<not> unset (FEISHU_WEBHOOK_URL cfg)
   \<Longrightarrow> verifyGitHubSignature P cfg req = Inr False
   \<Longrightarrow> handler P cfg now fo req = respond 401 ''Invalid signature''"
  by (simp add: handler_def)

lemma handler_verified:
  "\<not> unset (GITHUB_WEBHOOK_SECRET cfg) \<Longrightarrow> \<not> unset (FEISHU_WEBHOOK_URL cfg)
   \<Longrightarrow> verifyGitHubSignature P cfg req = Inr True
   \<Longrightarrow> handler P cfg now fo req =
       (case JSON_parse P (body req) of
          None \<Rightarrow> respond 400 ''Bad JSON''
        | Some payload \<Rightarrow>
            if \<not> allowed (repo_of payload) (ALLOWED_REPOS cfg) then respond 200 ''Ignored repo''
            else if header_or_empty (X_GitHub_Event req) = ''issues'' \<and> action_is payload ''closed''
            then issues_closed P cfg now fo (repo_of payload) payload
            else if header_or_empty (X_GitHub_Event req) = ''issue_comment''
                    \<and> action_is payload ''created''
            then issue_comment_created P cfg now fo (repo_of payload) payload
            else (respond 200 ''Ignored event'')
                   \<lparr>console := [Log_ignored_event (header_or_empty (X_GitHub_Event req)) payload]\<rparr>)"
  using verify_returned_Buffer [of P cfg req True]
  by (simp add: handler_def parse_body_def Let_def split: option.splits)

text \<open>Both handlers of a recognized pair answer 202 or not at all.\<close>

lemma issues_closed_response:
  "response (issues_closed P cfg now fo repo payload) = Some r
   \<Longrightarrow> r = \<lparr>status = 202, sent = ''Accepted''\<rparr>"
  by (auto simp: issues_closed_def Let_def split: sum.splits prod.splits)

lemma issues_closed_no_raise:
  "thrown (issues_closed P cfg now fo repo payload) = None
   \<Longrightarrow> response (issues_closed P cfg now fo repo payload) = Some \<lparr>status = 202, sent = ''Accepted''\<rparr>
     \<and> length (outbound (issues_closed P cfg now fo repo payload)) = 1"
  by (auto simp: issues_closed_def Let_def split: sum.splits prod.splits)

lemma comment_created_response:
  "response (issue_comment_created P cfg now fo repo payload) = Some r
   \<Longrightarrow> r = \<lparr>status = 202, sent = ''Accepted''\<rparr>"
  by (auto simp: issue_comment_created_def Let_def split: sum.splits prod.splits)

lemma comment_created_no_raise:
  "thrown (issue_comment_created P cfg now fo repo payload) = None
   \<Longrightarrow> response (issue_comment_created P cfg now fo repo payload)
         = Some \<lparr>status = 202, sent = ''Accepted''\<rparr>
     \<and> length (outbound (issue_comment_created P cfg now fo repo payload)) = 1"
  by (auto simp: issue_comment_created_def Let_def split: sum.splits prod.splits)

text \<open>The verification does not use the parser.\<close>

lemma expected_signature_parse_irrelevant:
  "expected_signature (P\<lparr>JSON_parse := parse\<rparr>) secret raw = expected_signature P secret raw"
  by (simp add: expected_signature_def)

lemma verify_parse_irrelevant:
  "verifyGitHubSignature (P\<lparr>JSON_parse := parse\<rparr>) cfg req = verifyGitHubSignature P cfg req"
  by (simp add: verifyGitHubSignature_def expected_signature_parse_irrelevant Let_def
      split: option.splits)

lemma handler_parse_irrelevant:
  assumes "verifyGitHubSignature P cfg req \<noteq> Inr True"
  shows "handler (P\<lparr>JSON_parse := parse\<rparr>) cfg now fo req = handler P cfg now fo req"
proof (cases "verifyGitHubSignature P cfg req")
  case (Inl e)
  then show ?thesis
    by (simp add: handler_def verify_parse_irrelevant)
next
  case (Inr b)
  with assms have "\<not> b" by auto
  with Inr show ?thesis
    by (simp add: handler_def verify_parse_irrelevant)
qed

text \<open>A run without exception has answered, and every answer has the specified status.\<close>

lemma handler_answers:
  assumes "thrown (handler P cfg now fo req) = None"
  shows "response (handler P cfg now fo req) \<noteq> None"
proof (cases "unset (GITHUB_WEBHOOK_SECRET cfg) \<or> unset (FEISHU_WEBHOOK_URL cfg)")
  case True
  then show ?thesis by (simp add: handler_unconfigured respond_def)
next
  case False
  then have c: "\<not> unset (GITHUB_WEBHOOK_SECRET cfg)" "\<not> unset (FEISHU_WEBHOOK_URL cfg)"
    by simp_all
  show ?thesis
  proof (cases "verifyGitHubSignature P cfg req")
    case (Inl e)
    with assms c show ?thesis by (simp add: handler_verify_raises)
  next
    case (Inr valid)
    show ?thesis
    proof (cases valid)
      case False
      with Inr c show ?thesis by (simp add: handler_invalid_signature respond_def)
    next
      case True
      with Inr have v: "verifyGitHubSignature P cfg req = Inr True" by simp
      show ?thesis
        using assms issues_closed_no_raise comment_created_no_raise
        unfolding handler_verified [OF c v]
        by (auto simp: respond_def split: option.splits if_splits)
    qed
  qed
qed

lemma handler_status:
  assumes "response (handler P cfg now fo req) = Some r"
  shows "status r = spec_status P cfg req"
proof (cases "unset (GITHUB_WEBHOOK_SECRET cfg) \<or> unset (FEISHU_WEBHOOK_URL cfg)")
  case True
  with assms have "status r = 500"
    by (auto simp: handler_unconfigured respond_def)
  moreover from True have "spec_status P cfg req = 500"
    by (auto simp: spec_status_def unset_def split: option.splits)
  ultimately show ?thesis by simp
next
  case False
  then have c: "\<not> unset (GITHUB_WEBHOOK_SECRET cfg)" "\<not> unset (FEISHU_WEBHOOK_URL cfg)"
    by simp_all
  then obtain secret where s: "GITHUB_WEBHOOK_SECRET cfg = Some secret" "secret \<noteq> []"
    by (auto simp: unset_def split: option.splits)
  let ?e = "expected_signature P secret (body req)"
  show ?thesis
  proof (cases "verifyGitHubSignature P cfg req")
    case (Inl e)
    with assms c show ?thesis by (simp add: handler_verify_raises)
  next
    case (Inr valid)
    show ?thesis
    proof (cases valid)
      case False
      with Inr have "verifyGitHubSignature P cfg req \<noteq> Inr True" by simp
      then have "X_Hub_Signature_256 req \<noteq> Some ?e"
        using verify_returned_Buffer [OF Inr] by (simp add: verify_true_iff [OF s(1)])
      then have "spec_status P cfg req = 401"
        using s c by (simp add: spec_status_def)
      moreover have "status r = 401"
        using assms Inr False c by (auto simp: handler_invalid_signature respond_def)
      ultimately show ?thesis by simp
    next
      case True
      with Inr have v: "verifyGitHubSignature P cfg req = Inr True" by simp
      then have h: "X_Hub_Signature_256 req = Some ?e"
        by (simp add: verify_true_iff [OF s(1)])
      show ?thesis
        using assms s c h
        unfolding handler_verified [OF c v]
        by (auto simp: spec_status_def respond_def recognized_def
            dest: issues_closed_response comment_created_response
            split: option.splits if_splits)
    qed
  qed
qed

text \<open>
  The outcome of the fetch reaches nothing but the error a send function ends with, and
  the clock nothing but the timestamp and signature of the payload.
\<close>

lemma send_post_call:
  "fst (sendFeishuPost P cfg now fo title ls) = fst (sendFeishuPost P cfg now fo' title ls)"
  by (simp add: sendFeishuPost_def Let_def)

lemma send_post_error: "snd (sendFeishuPost P cfg now fo title ls) = fetch_error fo"
  by (simp add: sendFeishuPost_def Let_def)

lemma send_post_content:
  "content (json (fst (sendFeishuPost P cfg now fo title ls))) = MsgPost title ls"
  by (simp add: sendFeishuPost_def Let_def)

lemma send_text_call:
  "fst (sendFeishuText P cfg now fo text) = fst (sendFeishuText P cfg now fo' text)"
  by (simp add: sendFeishuText_def Let_def)

lemma send_text_error: "snd (sendFeishuText P cfg now fo text) = fetch_error fo"
  by (simp add: sendFeishuText_def Let_def)

lemma send_text_content:
  "content (json (fst (sendFeishuText P cfg now fo text))) = MsgText text"
  by (simp add: sendFeishuText_def Let_def)

lemma fetch_error_ok [simp]: "fetch_error (Response 200 None) = None"
  by (simp add: fetch_error_def)

lemma issues_closed_outcome:
  "issues_closed P cfg now fo repo payload
     = (issues_closed P cfg now fo' repo payload)
         \<lparr>console := console (issues_closed P cfg now fo repo payload)\<rparr>"
  by (simp add: issues_closed_def Let_def split_beta send_post_call [of P cfg now fo _ _ fo']
      split: sum.splits)

lemma issues_closed_console:
  "console (issues_closed P cfg now fo repo payload)
     = console (issues_closed P cfg now (Response 200 None) repo payload)
       @ (if outbound (issues_closed P cfg now fo repo payload) = [] then [] else reported fo)"
  by (simp add: issues_closed_def Let_def split_beta send_post_error reported_def
      split: sum.splits)

lemma comment_created_outcome:
  "issue_comment_created P cfg now fo repo payload
     = (issue_comment_created P cfg now fo' repo payload)
         \<lparr>console := console (issue_comment_created P cfg now fo repo payload)\<rparr>"
  by (simp add: issue_comment_created_def Let_def split_beta
      send_text_call [of P cfg now fo _ fo'] split: sum.splits)

lemma comment_created_console:
  "console (issue_comment_created P cfg now fo repo payload)
     = console (issue_comment_created P cfg now (Response 200 None) repo payload)
       @ (if outbound (issue_comment_created P cfg now fo repo payload) = [] then []
          else reported fo)"
  by (simp add: issue_comment_created_def Let_def split_beta send_text_error reported_def
      split: sum.splits)

lemma handler_outcome:
  "handler P cfg now fo req
     = (handler P cfg now fo' req)\<lparr>console := console (handler P cfg now fo req)\<rparr>"
  using issues_closed_outcome [of P cfg now fo _ _ fo']
    comment_created_outcome [of P cfg now fo _ _ fo']
  by (simp add: handler_def Let_def respond_def split: sum.splits option.splits)

lemma handler_console:
  "console (handler P cfg now fo req)
     = console (handler P cfg now (Response 200 None) req)
       @ (if outbound (handler P cfg now fo req) = [] then [] else reported fo)"
  using issues_closed_console [of P cfg now fo] comment_created_console [of P cfg now fo]
  by (simp add: handler_def Let_def respond_def split: sum.splits option.splits)

text \<open>The delivery identifier is read and never used.\<close>

lemma verify_delivery_irrelevant:
  "verifyGitHubSignature P cfg (req\<lparr>X_GitHub_Delivery := d\<rparr>) = verifyGitHubSignature P cfg req"
  by (simp add: verifyGitHubSignature_def Let_def split: option.splits)

lemma handler_delivery_irrelevant:
  "handler P cfg now fo (req\<lparr>X_GitHub_Delivery := d\<rparr>) = handler P cfg now fo req"
  by (simp add: handler_def parse_body_def verify_delivery_irrelevant Let_def
      split: sum.splits)

lemma issues_closed_clock:
  "response (issues_closed P cfg now fo repo payload)
     = response (issues_closed P cfg now' fo' repo payload)"
  "thrown (issues_closed P cfg now fo repo payload)
     = thrown (issues_closed P cfg now' fo' repo payload)"
  "messages (issues_closed P cfg now fo repo payload)
     = messages (issues_closed P cfg now' fo' repo payload)"
  by (simp_all add: issues_closed_def Let_def split_beta messages_def send_post_content
      split: sum.splits)

lemma comment_created_clock:
  "response (issue_comment_created P cfg now fo repo payload)
     = response (issue_comment_created P cfg now' fo' repo payload)"
  "thrown (issue_comment_created P cfg now fo repo payload)
     = thrown (issue_comment_created P cfg now' fo' repo payload)"
  "messages (issue_comment_created P cfg now fo repo payload)
     = messages (issue_comment_created P cfg now' fo' repo payload)"
  by (simp_all add: issue_comment_created_def Let_def split_beta messages_def send_text_content
      split: sum.splits)

lemma handler_clock:
  "response (handler P cfg now fo req) = response (handler P cfg now' fo' req)"
  "thrown (handler P cfg now fo req) = thrown (handler P cfg now' fo' req)"
  "messages (handler P cfg now fo req) = messages (handler P cfg now' fo' req)"
  using issues_closed_clock [of P cfg now fo _ _ now' fo']
    comment_created_clock [of P cfg now fo _ _ now' fo']
  by (simp_all add: handler_def Let_def respond_def messages_def
      split: sum.splits option.splits)

text \<open>An accepted delivery on which nothing is raised is answered 202 and makes one call.\<close>

lemma accepted_iff_202: "accepted P cfg req \<longleftrightarrow> spec_status P cfg req = 202"
  by (auto simp: accepted_def spec_status_def unset_def split: option.splits)

lemma accepted_run:
  assumes "accepted P cfg req" and "thrown (handler P cfg now fo req) = None"
  shows "response (handler P cfg now fo req) = Some \<lparr>status = 202, sent = ''Accepted''\<rparr>
         \<and> length (outbound (handler P cfg now fo req)) = 1"
proof -
  from assms(1) obtain secret payload
    where s: "GITHUB_WEBHOOK_SECRET cfg = Some secret" "secret \<noteq> []"
      and u: "\<not> unset (FEISHU_WEBHOOK_URL cfg)"
      and h: "X_Hub_Signature_256 req = Some (expected_signature P secret (body req))"
      and p: "JSON_parse P (body req) = Some payload"
      and a: "allowed (repo_of payload) (ALLOWED_REPOS cfg)"
      and r: "recognized (header_or_empty (X_GitHub_Event req)) payload"
    by (auto simp: accepted_def split: option.splits)
  have c: "\<not> unset (GITHUB_WEBHOOK_SECRET cfg)" "\<not> unset (FEISHU_WEBHOOK_URL cfg)"
    using s u by (simp_all add: unset_def)
  have "body_is_Buffer req"
  proof (rule ccontr)
    assume "\<not> body_is_Buffer req"
    then have "verifyGitHubSignature P cfg req = Inl TypeError"
      by (rule verify_raises_without_Buffer)
    then show False
      using assms(2) by (simp add: handler_verify_raises [OF c])
  qed
  with h have v: "verifyGitHubSignature P cfg req = Inr True"
    by (simp add: verify_true_iff [OF s(1)])
  show ?thesis
    using assms(2) p a r issues_closed_no_raise [of P cfg now fo "repo_of payload" payload]
      comment_created_no_raise [of P cfg now fo "repo_of payload" payload]
    unfolding handler_verified [OF c v]
    by (auto simp: recognized_def)
qed

section \<open>The handler on the concrete requests\<close>

text \<open>
  The handler evaluated on the concrete requests, for every clock and every outcome of
  the fetch.
\<close>

lemma demo_parse_closed: "JSON_parse demo_platform body_closed = Some payload_closed"
  by (simp add: demo_platform_def demo_parse_def body_closed_def utf8_bytes_def)

lemma demo_parse_constructor:
  "JSON_parse demo_platform body_closed_by_constructor = Some payload_closed_by_constructor"
  by (simp add: demo_platform_def demo_parse_def body_closed_def body_closed_by_constructor_def
      utf8_bytes_def)

lemma demo_parse_anonymous:
  "JSON_parse demo_platform body_closed_anonymous = Some payload_closed_anonymous"
  by (simp add: demo_platform_def demo_parse_def body_closed_def body_closed_by_constructor_def
      body_closed_anonymous_def utf8_bytes_def)

lemma demo_parse_closed_bare:
  "JSON_parse demo_platform body_closed_bare = Some payload_closed_bare"
  by (simp add: demo_platform_def demo_parse_def body_closed_def body_closed_by_constructor_def
      body_closed_anonymous_def body_closed_bare_def utf8_bytes_def)

lemma demo_parse_comment:
  "JSON_parse demo_platform body_comment = Some payload_comment"
  by (simp add: demo_platform_def demo_parse_def body_closed_def body_closed_by_constructor_def
      body_closed_anonymous_def body_closed_bare_def body_comment_def utf8_bytes_def)

lemma demo_parse_comment_bare:
  "JSON_parse demo_platform body_comment_bare = Some payload_comment_bare"
  by (simp add: demo_platform_def demo_parse_def body_closed_def body_closed_by_constructor_def
      body_closed_anonymous_def body_closed_bare_def body_comment_def body_comment_bare_def
      utf8_bytes_def)

lemma demo_parse_odd_repository:
  "JSON_parse demo_platform body_closed_odd_repository = Some payload_closed_odd_repository"
  by (simp add: demo_platform_def demo_parse_def body_closed_def body_closed_by_constructor_def
      body_closed_anonymous_def body_closed_bare_def body_comment_def body_comment_bare_def
      body_closed_odd_repository_def utf8_bytes_def)

lemma demo_configured:
  "GITHUB_WEBHOOK_SECRET demo_config = Some (lit ''s3cret'')"
  "\<not> unset (GITHUB_WEBHOOK_SECRET demo_config)"
  "\<not> unset (FEISHU_WEBHOOK_URL demo_config)"
  by (simp_all add: demo_config_def unset_def)

lemma signed_request_verified:
  "verifyGitHubSignature demo_platform demo_config (signed_request event raw) = Inr True"
  by (simp add: verify_true_iff [OF demo_configured(1)] signed_request_def)

lemma signed_request_sel [simp]:
  "body (signed_request event raw) = raw"
  "body_is_Buffer (signed_request event raw)"
  "X_GitHub_Event (signed_request event raw) = Some event"
  "X_Hub_Signature_256 (signed_request event raw)
     = Some (expected_signature demo_platform (lit ''s3cret'') raw)"
  by (simp_all add: signed_request_def)

lemma demo_allowed: "allowed (Str (lit ''a/b'')) (ALLOWED_REPOS demo_config)"
  by (simp add: allowed_def has_def demo_config_def)

lemmas js_simps = opt_get_def or_else_def truthy_def repo_of_def action_is_def nl_def
  Object_prototype_def header_or_empty_def get_computed_def number_text_def

lemma handler_closed_bare:
  "handler demo_platform demo_config 0 Rejected (signed_request ''issues'' body_closed_bare)
     = \<lparr>response = None, thrown = Some TypeError, outbound = [], console = []\<rparr>"
  by (simp add: handler_verified [OF demo_configured(2,3) signed_request_verified]
      demo_parse_closed_bare payload_closed_bare_def js_simps demo_allowed
      issues_closed_def closed_lookup_def opener_of_def)

lemmas run_simps = js_simps issues_closed_def closed_lookup_def closed_lines_def opener_of_def
  issue_comment_created_def comment_text_def comment_body_text_def opt_slice_200_def gt_200_def
  sendFeishuPost_def sendFeishuText_def Let_def reported_def decimal_def digit_def lit_def

lemma handler_closed_demo:
  "handler demo_platform demo_config now fo (signed_request ''issues'' body_closed)
     = \<lparr>response = Some \<lparr>status = 202, sent = ''Accepted''\<rparr>, thrown = None,
        outbound =
          [\<lparr>url = Some (lit ''https://open.feishu.cn/hook''),
            json = \<lparr>content =
                      MsgPost ([0x2705] @ lit '' [a/b]'')
                        [TagText (lit ''Issue #7 '' @ [0x5DF2, 0x5173, 0x95ED] @ nl),
                         TagText (lit ''Bug'' @ nl),
                         TagA [0x67E5, 0x770B, 0x8BE6, 0x60C5] (Str (lit ''https://x/7'')),
                         TagText (nl @ lit ''by bob''),
                         TagText nl,
                         TagAt (Str (lit ''ou_1'')) (Str (lit ''Alice''))],
                    timestamp = None, sign = None\<rparr>\<rparr>],
        console =
          Log_issue_closed (lit ''Issue closed by alice, feishuUserId:'')
            (Obj [(lit ''id'', Str (lit ''ou_1'')), (lit ''name'', Str (lit ''Alice''))])
          # reported fo\<rparr>"
  unfolding handler_verified [OF demo_configured(2,3) signed_request_verified]
  by (simp add: demo_parse_closed payload_closed_def allowed_def has_def demo_config_def run_simps)

lemma handler_constructor_demo:
  "handler demo_platform demo_config now fo (signed_request ''issues'' body_closed_by_constructor)
     = \<lparr>response = Some \<lparr>status = 202, sent = ''Accepted''\<rparr>, thrown = None,
        outbound =
          [\<lparr>url = Some (lit ''https://open.feishu.cn/hook''),
            json = \<lparr>content =
                      MsgPost ([0x2705] @ lit '' [a/b]'')
                        [TagText (lit ''Issue #7 '' @ [0x5DF2, 0x5173, 0x95ED] @ nl),
                         TagText (lit ''Bug'' @ nl),
                         TagA [0x67E5, 0x770B, 0x8BE6, 0x60C5] (Str (lit ''https://x/7'')),
                         TagText (nl @ lit ''by bob''),
                         TagText nl,
                         TagAt Undefined (Str (lit ''Object''))],
                    timestamp = None, sign = None\<rparr>\<rparr>],
        console =
          Log_issue_closed (lit ''Issue closed by constructor, feishuUserId:'')
            (Fn (lit ''Object''))
          # reported fo\<rparr>"
  unfolding handler_verified [OF demo_configured(2,3) signed_request_verified]
  by (simp add: demo_parse_constructor payload_closed_by_constructor_def allowed_def has_def demo_config_def
      run_simps)

lemma handler_anonymous_demo:
  "handler demo_platform demo_config now fo (signed_request ''issues'' body_closed_anonymous)
     = \<lparr>response = Some \<lparr>status = 202, sent = ''Accepted''\<rparr>, thrown = None,
        outbound =
          [\<lparr>url = Some (lit ''https://open.feishu.cn/hook''),
            json = \<lparr>content =
                      MsgPost ([0x2705] @ lit '' [a/b]'')
                        [TagText (lit ''Issue #7 '' @ [0x5DF2, 0x5173, 0x95ED] @ nl),
                         TagText (lit ''Bug'' @ nl),
                         TagA [0x67E5, 0x770B, 0x8BE6, 0x60C5] (Str (lit ''https://x/7'')),
                         TagText (nl @ lit ''by unknown'')],
                    timestamp = None, sign = None\<rparr>\<rparr>],
        console =
          Log_issue_closed (lit ''Issue closed by , feishuUserId:'') Undefined
          # reported fo\<rparr>"
  unfolding handler_verified [OF demo_configured(2,3) signed_request_verified]
  by (simp add: demo_parse_anonymous payload_closed_anonymous_def allowed_def has_def demo_config_def
      run_simps)

lemma handler_comment_demo:
  "handler demo_platform demo_config now fo (signed_request ''issue_comment'' body_comment)
     = \<lparr>response = Some \<lparr>status = 202, sent = ''Accepted''\<rparr>, thrown = None,
        outbound =
          [\<lparr>url = Some (lit ''https://open.feishu.cn/hook''),
            json = \<lparr>content =
                      MsgText ([0xD83D, 0xDCAC] @ lit '' [a/b] Issue #7 ''
                        @ [0x65B0, 0x8BC4, 0x8BBA] @ nl @ lit ''Bug'' @ nl @ lit ''by unknown''
                        @ nl @ nl @ lit (replicate 200 CHR ''x'') @ lit ''...'' @ nl
                        @ lit ''https://x/7#c''),
                    timestamp = None, sign = None\<rparr>\<rparr>],
        console = reported fo\<rparr>"
  unfolding handler_verified [OF demo_configured(2,3) signed_request_verified]
  by (simp add: demo_parse_comment payload_comment_def allowed_def has_def demo_config_def
      run_simps)

lemma handler_comment_bare_demo:
  "handler demo_platform demo_config now fo (signed_request ''issue_comment'' body_comment_bare)
     = \<lparr>response = None, thrown = Some TypeError, outbound = [], console = []\<rparr>"
  unfolding handler_verified [OF demo_configured(2,3) signed_request_verified]
  by (simp add: demo_parse_comment_bare payload_comment_bare_def allowed_def has_def demo_config_def
      run_simps)

text \<open>
  The same with every repository allowed, on a payload whose repository name is an
  object with a property \<^verbatim>\<open>toString\<close>: the response is sent on line 153, then the title
  on line 154 cannot be converted and nothing is posted.
\<close>

lemma open_configured:
  "\<not> unset (GITHUB_WEBHOOK_SECRET (demo_config\<lparr>ALLOWED_REPOS := {||}\<rparr>))"
  "\<not> unset (FEISHU_WEBHOOK_URL (demo_config\<lparr>ALLOWED_REPOS := {||}\<rparr>))"
  by (simp_all add: demo_config_def unset_def)

lemma open_signed_request_verified:
  "verifyGitHubSignature demo_platform (demo_config\<lparr>ALLOWED_REPOS := {||}\<rparr>)
     (signed_request event raw) = Inr True"
proof -
  have "GITHUB_WEBHOOK_SECRET (demo_config\<lparr>ALLOWED_REPOS := {||}\<rparr>) = Some (lit ''s3cret'')"
    by (simp add: demo_config_def)
  from verify_true_iff [OF this] show ?thesis by simp
qed

lemma handler_odd_repository_demo:
  "handler demo_platform (demo_config\<lparr>ALLOWED_REPOS := {||}\<rparr>) now fo
       (signed_request ''issues'' body_closed_odd_repository)
     = \<lparr>response = Some \<lparr>status = 202, sent = ''Accepted''\<rparr>, thrown = Some TypeError,
        outbound = [],
        console =
          [Log_issue_closed (lit ''Issue closed by alice, feishuUserId:'')
             (Obj [(lit ''id'', Str (lit ''ou_1'')), (lit ''name'', Str (lit ''Alice''))])]\<rparr>"
  unfolding handler_verified [OF open_configured open_signed_request_verified]
  by (simp add: demo_parse_odd_repository payload_closed_odd_repository_def allowed_def has_def
      demo_config_def run_simps)

section \<open>Rendering\<close>

text \<open>The content line and the comment text when the fields they read convert to strings.\<close>

lemma field_textD:
  assumes "field_text P v k = Inr s"
  obtains x where "get v k = Inr x" and "ToString P x = Inr s"
  using assms by (cases "get v k") (simp_all add: field_text_def)

lemma get_truthy: "truthy v \<Longrightarrow> get v k = Inr (opt_get v k)"
  by (cases "get v k"; cases v) (simp_all add: opt_get_def truthy_def)

lemma default_unknown:
  "\<not> truthy v \<Longrightarrow> ToString P (or_else v (Str (lit ''unknown''))) = Inr (lit ''unknown'')"
  by (simp add: or_else_def)

lemma closed_lines_rendered:
  assumes "field_text P issue (lit ''number'') = Inr number"
    and "field_text P issue (lit ''title'') = Inr title"
    and "get issue (lit ''html_url'') = Inr href"
    and "get payload (lit ''sender'') = Inr sender"
    and "ToString P (or_else (opt_get sender (lit ''login'')) (Str (lit ''unknown''))) = Inr author"
  shows "closed_lines P payload issue entry =
           Inr ([TagText (lit ''Issue #'' @ number @ lit '' '' @ [0x5DF2, 0x5173, 0x95ED] @ nl),
                 TagText (title @ nl),
                 TagA [0x67E5, 0x770B, 0x8BE6, 0x60C5] href,
                 TagText (nl @ lit ''by '' @ author)] @ mention entry)"
proof -
  from assms(1) obtain n where n: "get issue (lit ''number'') = Inr n" "ToString P n = Inr number"
    by (rule field_textD)
  from assms(2) obtain t where t: "get issue (lit ''title'') = Inr t" "ToString P t = Inr title"
    by (rule field_textD)
  show ?thesis
    by (simp add: closed_lines_def n t assms(3-5) mention_def get_truthy)
qed

lemma comment_body_text_string:
  "comment_body_text P (Str s) = Inr (if 200 < length s then take 200 s @ lit ''...'' else s)"
  by (simp add: comment_body_text_def opt_slice_200_def or_else_def truthy_def gt_200_def
      opt_get_def)

lemma comment_body_text_missing:
  "comment_body_text P Undefined = Inr []" "comment_body_text P Null = Inr []"
  by (simp_all add: comment_body_text_def opt_slice_200_def or_else_def truthy_def gt_200_def
      opt_get_def)

lemma comment_text_rendered:
  assumes "get payload (lit ''issue'') = Inr issue"
    and "get payload (lit ''comment'') = Inr comment"
    and "ToString P repo = Inr r"
    and "field_text P issue (lit ''number'') = Inr number"
    and "field_text P issue (lit ''title'') = Inr title"
    and "get comment (lit ''user'') = Inr user"
    and "ToString P (or_else (opt_get user (lit ''login'')) (Str (lit ''unknown''))) = Inr author"
    and "get comment (lit ''body'') = Inr b"
    and "comment_body_text P b = Inr shown"
    and "field_text P comment (lit ''html_url'') = Inr html_url"
  shows "comment_text P repo payload =
           Inr ([0xD83D, 0xDCAC] @ lit '' ['' @ r @ lit ''] Issue #'' @ number @ lit '' ''
                  @ [0x65B0, 0x8BC4, 0x8BBA] @ nl @ title @ nl @ lit ''by '' @ author @ nl @ nl
                  @ shown @ nl @ html_url)"
proof -
  from assms(4) obtain n where n: "get issue (lit ''number'') = Inr n" "ToString P n = Inr number"
    by (rule field_textD)
  from assms(5) obtain t where t: "get issue (lit ''title'') = Inr t" "ToString P t = Inr title"
    by (rule field_textD)
  from assms(10) obtain u where u: "get comment (lit ''html_url'') = Inr u" "ToString P u = Inr html_url"
    by (rule field_textD)
  show ?thesis
    by (simp add: comment_text_def n t u assms(1-3,6-9))
qed

section \<open>Requests on which the handler does not raise\<close>

lemma ToString_primitive: "primitive v \<Longrightarrow> \<exists>s. ToString P v = Inr s"
  by (cases v) (simp_all add: primitive_def)

lemma primitive_or_else: "primitive v \<Longrightarrow> primitive (or_else v (Str d))"
  by (simp add: or_else_def primitive_def)

lemma get_present: "present v \<Longrightarrow> get v k = Inr (opt_get v k)"
  by (cases v) (simp_all add: present_def opt_get_def)

lemma present_action: "action_is payload a \<Longrightarrow> present payload"
  by (cases payload) (auto simp: action_is_def opt_get_def present_def)

lemma field_text_primitive:
  "present v \<Longrightarrow> primitive (opt_get v k) \<Longrightarrow> \<exists>s. field_text P v k = Inr s"
  by (simp add: field_text_def get_present ToString_primitive)

lemma comment_body_text_shaped:
  "(case b of Undefined \<Rightarrow> True | Null \<Rightarrow> True | Str s \<Rightarrow> True | _ \<Rightarrow> False)
   \<Longrightarrow> \<exists>s. comment_body_text P b = Inr s"
  by (cases b) (simp_all add: comment_body_text_string comment_body_text_missing)

lemma issues_closed_well_shaped:
  assumes "action_is payload ''closed''" and "well_shaped ''issues'' payload"
    and "present (USER_MAPPING cfg)"
  shows "thrown (issues_closed P cfg now fo (repo_of payload) payload) = None"
proof -
  let ?issue = "opt_get payload (lit ''issue'')"
  let ?user = "opt_get ?issue (lit ''user'')"
  let ?sender = "opt_get payload (lit ''sender'')"
  have p: "present payload" using assms(1) by (rule present_action)
  from assms(1,2) have i: "present ?issue" and r: "primitive (repo_of payload)"
    and n: "primitive (opt_get ?issue (lit ''number''))"
    and t: "primitive (opt_get ?issue (lit ''title''))"
    and o: "primitive (opt_get ?user (lit ''login''))"
    and s: "primitive (opt_get ?sender (lit ''login''))"
    by (simp_all add: well_shaped_def Let_def)
  obtain key where key: "ToString P (or_else (opt_get ?user (lit ''login'')) (Str [])) = Inr key"
    using ToString_primitive [OF primitive_or_else [OF o]] by blast
  obtain entry where m: "get_computed P (USER_MAPPING cfg) key = Inr entry"
    using assms(3) by (cases "USER_MAPPING cfg") (simp_all add: get_computed_def present_def)
  have lookup: "closed_lookup P cfg payload = Inr (?issue, key, entry)"
    by (simp add: closed_lookup_def opener_of_def get_present [OF p] get_present [OF i] key m)
  obtain number where number: "field_text P ?issue (lit ''number'') = Inr number"
    using field_text_primitive [OF i n] by blast
  obtain title where title: "field_text P ?issue (lit ''title'') = Inr title"
    using field_text_primitive [OF i t] by blast
  obtain author where author:
    "ToString P (or_else (opt_get ?sender (lit ''login'')) (Str (lit ''unknown''))) = Inr author"
    using ToString_primitive [OF primitive_or_else [OF s]] by blast
  obtain ls where ls: "closed_lines P payload ?issue entry = Inr ls"
    using closed_lines_rendered [OF number title get_present [OF i] get_present [OF p] author]
    by blast
  obtain title' where title': "ToString P (repo_of payload) = Inr title'"
    using ToString_primitive [OF r] by blast
  show ?thesis
    by (simp add: issues_closed_def lookup ls title' Let_def split_beta)
qed

lemma comment_created_well_shaped:
  assumes "action_is payload ''created''" and "well_shaped ''issue_comment'' payload"
  shows "thrown (issue_comment_created P cfg now fo (repo_of payload) payload) = None"
proof -
  let ?issue = "opt_get payload (lit ''issue'')"
  let ?comment = "opt_get payload (lit ''comment'')"
  let ?user = "opt_get ?comment (lit ''user'')"
  have p: "present payload" using assms(1) by (rule present_action)
  from assms have i: "present ?issue" and c: "present ?comment"
    and r: "primitive (repo_of payload)"
    and n: "primitive (opt_get ?issue (lit ''number''))"
    and t: "primitive (opt_get ?issue (lit ''title''))"
    and o: "primitive (opt_get ?user (lit ''login''))"
    and u: "primitive (opt_get ?comment (lit ''html_url''))"
    and b: "(case opt_get ?comment (lit ''body'') of
              Undefined \<Rightarrow> True | Null \<Rightarrow> True | Str s \<Rightarrow> True | _ \<Rightarrow> False)"
    by (simp_all add: well_shaped_def Let_def)
  obtain rs where rs: "ToString P (repo_of payload) = Inr rs"
    using ToString_primitive [OF r] by blast
  obtain number where number: "field_text P ?issue (lit ''number'') = Inr number"
    using field_text_primitive [OF i n] by blast
  obtain title where title: "field_text P ?issue (lit ''title'') = Inr title"
    using field_text_primitive [OF i t] by blast
  obtain author where author:
    "ToString P (or_else (opt_get ?user (lit ''login'')) (Str (lit ''unknown''))) = Inr author"
    using ToString_primitive [OF primitive_or_else [OF o]] by blast
  obtain shown where shown: "comment_body_text P (opt_get ?comment (lit ''body'')) = Inr shown"
    using comment_body_text_shaped [OF b] by blast
  obtain html_url where html_url: "field_text P ?comment (lit ''html_url'') = Inr html_url"
    using field_text_primitive [OF c u] by blast
  obtain rendered where rendered: "comment_text P (repo_of payload) payload = Inr rendered"
    using comment_text_rendered [OF get_present [OF p] get_present [OF p] rs number title
        get_present [OF c] author get_present [OF c] shown html_url]
    by blast
  show ?thesis
    by (simp add: issue_comment_created_def rendered Let_def split_beta)
qed

lemma verify_returns:
  assumes "GITHUB_WEBHOOK_SECRET cfg = Some secret" and "body_is_Buffer req"
    and "length (header_or_empty (X_Hub_Signature_256 req))
           \<noteq> length (expected_signature P secret (body req))
         \<or> list_all ascii (header_or_empty (X_Hub_Signature_256 req))"
  shows "\<exists>valid. verifyGitHubSignature P cfg req = Inr valid"
proof (cases "X_Hub_Signature_256 req = Some (expected_signature P secret (body req))")
  case True
  then have "verifyGitHubSignature P cfg req = Inr True"
    using assms(2) by (simp add: verify_true_iff [OF assms(1)])
  then show ?thesis by blast
next
  case False
  then show ?thesis using verify_false [OF assms(1,2) _ assms(3)] by blast
qed

text \<open>
  When the handler raises no exception: whenever \<^verbatim>\<open>req.body\<close> is a Buffer, the identity
  mapping is neither null nor undefined, the signature header is missing or made of
  ASCII characters, and the payload of a recognized pair has the objects and the plain
  fields that the renderer reads.
\<close>

lemma handler_does_not_raise:
  assumes "body_is_Buffer req" and "present (USER_MAPPING cfg)"
    and "list_all ascii (header_or_empty (X_Hub_Signature_256 req))"
    and "case JSON_parse P (body req) of
           None \<Rightarrow> True
         | Some payload \<Rightarrow> well_shaped (header_or_empty (X_GitHub_Event req)) payload"
  shows "thrown (handler P cfg now fo req) = None"
proof (cases "unset (GITHUB_WEBHOOK_SECRET cfg) \<or> unset (FEISHU_WEBHOOK_URL cfg)")
  case True
  then show ?thesis by (simp add: handler_unconfigured respond_def)
next
  case False
  then have c: "\<not> unset (GITHUB_WEBHOOK_SECRET cfg)" "\<not> unset (FEISHU_WEBHOOK_URL cfg)"
    by simp_all
  then obtain secret where s: "GITHUB_WEBHOOK_SECRET cfg = Some secret"
    by (auto simp: unset_def split: option.splits)
  with assms(3) obtain valid where v: "verifyGitHubSignature P cfg req = Inr valid"
    using verify_returns [OF s assms(1)] by auto
  show ?thesis
  proof (cases valid)
    case False
    with v show ?thesis by (simp add: handler_invalid_signature [OF c] respond_def)
  next
    case True
    with v have v': "verifyGitHubSignature P cfg req = Inr True" by simp
    show ?thesis
      using assms(4) issues_closed_well_shaped [OF _ _ assms(2), of _ P now fo]
        comment_created_well_shaped [of _ P cfg now fo]
      unfolding handler_verified [OF c v']
      by (auto simp: respond_def split: option.splits)
  qed
qed

section \<open>C1: a header that makes the comparison raise\<close>

text \<open>
  C1. The specification wants false for every header that differs from the expected
  string. The handler compares the lengths of the two strings and then hands their
  UTF-8 encodings to \<^verbatim>\<open>timingSafeEqual\<close>: a header of the expected length with a code
  unit above 127 encodes to a longer buffer, and the comparison raises a RangeError
  instead of returning false. Here the header is the expected string with its last
  character replaced by the byte E9, and \<^verbatim>\<open>req.body\<close> is the Buffer that \<^verbatim>\<open>express.raw\<close>
  stores; this holds for every digest function, secret and body.
\<close>

theorem verify_raises_on_non_ascii_header:
  "verifyGitHubSignature P (cfg\<lparr>GITHUB_WEBHOOK_SECRET := Some s\<rparr>)
     (req\<lparr>X_Hub_Signature_256 :=
            Some (butlast (expected_signature P s (body req)) @ [CHR 0xE9]),
          body_is_Buffer := True\<rparr>)
   = Inl RangeError"
proof -
  let ?e = "expected_signature P s (body req)"
  let ?h = "butlast ?e @ [CHR 0xE9]"
  have ne: "?e \<noteq> []" by (rule expected_signature_not_Nil)
  then have len: "length ?h = length ?e" by (simp add: Suc_pred')
  have "list_all ascii (butlast ?e)"
    using expected_signature_ascii [of P s "body req"]
    by (auto simp: list_all_iff dest: in_set_butlastD)
  then have "filter (\<lambda>c. \<not> ascii c) (butlast ?e) = []"
    by (simp add: filter_empty_conv list_all_iff)
  then have "length (Buffer_from ?h) = length ?e + 1"
    using len by (simp add: length_Buffer_from ascii_def)
  moreover have "length (Buffer_from ?e) = length ?e"
    by (simp add: Buffer_from_same_length expected_signature_ascii)
  ultimately have "timingSafeEqual (Buffer_from ?h) (Buffer_from ?e) = Inl RangeError"
    by (simp add: timingSafeEqual_def)
  then show ?thesis
    using len by (simp add: verifyGitHubSignature_def header_or_empty_def Let_def)
qed

section \<open>C2: what the verification returns without raising\<close>




section \<open>C3: the comparison of the signature\<close>

text \<open>
  C3 is about the running time of \<^verbatim>\<open>crypto.timingSafeEqual\<close>, a primitive of the platform
  of which this model keeps the result only. What the code of the handler settles is
  where the primitive is called, for a body that is a Buffer: never on strings of
  different lengths, and always, on their UTF-8 encodings, otherwise.
\<close>

lemma verify_compares_with_timingSafeEqual:
  assumes "GITHUB_WEBHOOK_SECRET cfg = Some secret" and "body_is_Buffer req"
  shows "verifyGitHubSignature P cfg req =
           (if length (header_or_empty (X_Hub_Signature_256 req))
                 \<noteq> length (expected_signature P secret (body req))
            then Inr False
            else timingSafeEqual (Buffer_from (header_or_empty (X_Hub_Signature_256 req)))
                   (Buffer_from (expected_signature P secret (body req))))"
  using assms expected_signature_not_Nil [of P secret "body req"]
  by (auto simp: verifyGitHubSignature_def Let_def)

section \<open>C4: the status by the first failing stage\<close>

text \<open>
  C4, as the code has it. Whenever the handler answers, the status is the one the
  specification gives by the first failing stage. A run that raises no exception
  answers, and no exception is raised when \<^verbatim>\<open>req.body\<close> is a Buffer, the identity mapping
  is neither null nor undefined, the signature header is missing or made of ASCII
  characters, and the payload of a recognized pair has what its renderer reads. Without
  the first of these restrictions a configured handler raises on line 35, and without
  the second an issues.closed event raises on line 137.
  The signature is checked on the raw body before the body is parsed: a request whose
  signature does not verify is handled the same whatever the parser would return.
\<close>

theorem status_by_first_failing_stage:
  "(response (handler P cfg now fo req) = Some r \<longrightarrow> status r = spec_status P cfg req)
   \<and> (thrown (handler P cfg now fo req) = None \<longrightarrow> response (handler P cfg now fo req) \<noteq> None)
   \<and> (body_is_Buffer req \<and> present (USER_MAPPING cfg)
        \<and> list_all ascii (header_or_empty (X_Hub_Signature_256 req))
        \<and> (case JSON_parse P (body req) of
               None \<Rightarrow> True
             | Some payload \<Rightarrow> well_shaped (header_or_empty (X_GitHub_Event req)) payload)
        \<longrightarrow> thrown (handler P cfg now fo req) = None)
   \<and> (verifyGitHubSignature P cfg req \<noteq> Inr True
        \<longrightarrow> handler (P\<lparr>JSON_parse := parse\<rparr>) cfg now fo req = handler P cfg now fo req)"
  using handler_answers [of P cfg now fo req] handler_status [of P cfg now fo req r]
    handler_does_not_raise [of req cfg P now fo]
    handler_parse_irrelevant [of P cfg req parse now fo]
  by blast

text \<open>
  Instances: the signed issues.closed request is answered 202, which is therefore the
  status of the specification; its body is a Buffer, the mapping is an object and its
  payload is well shaped, so the run raises nothing; the same request without its signature is answered 401 also when the parser
  is replaced.
\<close>

theorem status_by_first_failing_stage_witness:
  "response (handler demo_platform demo_config 0 Rejected (signed_request ''issues'' body_closed))
     = Some \<lparr>status = 202, sent = ''Accepted''\<rparr>
   \<and> spec_status demo_platform demo_config (signed_request ''issues'' body_closed) = 202
   \<and> thrown (handler demo_platform demo_config 0 Rejected
         (signed_request ''issues'' body_closed)) = None
   \<and> handler (demo_platform\<lparr>JSON_parse := (\<lambda>b. Some Null)\<rparr>) demo_config 0 Rejected
         ((signed_request ''issues'' body_closed)\<lparr>X_Hub_Signature_256 := None\<rparr>)
       = respond 401 ''Invalid signature''"
proof -
  let ?req = "signed_request ''issues'' body_closed"
  let ?bad = "?req\<lparr>X_Hub_Signature_256 := None\<rparr>"
  note th = status_by_first_failing_stage
    [where P = demo_platform and cfg = demo_config and now = 0 and fo = Rejected]
  have r: "response (handler demo_platform demo_config 0 Rejected ?req)
             = Some \<lparr>status = 202, sent = ''Accepted''\<rparr>"
    by (simp add: handler_closed_demo)
  have s: "spec_status demo_platform demo_config ?req = 202"
    using th [where req = ?req and r = "\<lparr>status = 202, sent = ''Accepted''\<rparr>"] r
    by simp
  have w: "well_shaped ''issues'' payload_closed"
    by (simp add: well_shaped_def payload_closed_def js_simps primitive_def present_def)
  have t: "thrown (handler demo_platform demo_config 0 Rejected ?req) = None"
    using th [where req = ?req] w
    by (simp add: header_or_empty_def expected_signature_ascii demo_parse_closed
        present_def demo_config_def)
  have v: "verifyGitHubSignature demo_platform demo_config ?bad = Inr False"
    by (simp add: verifyGitHubSignature_def demo_configured header_or_empty_def Let_def)
  then have "handler (demo_platform\<lparr>JSON_parse := (\<lambda>b. Some Null)\<rparr>) demo_config 0 Rejected ?bad
               = handler demo_platform demo_config 0 Rejected ?bad"
    using th [where req = ?bad and parse = "\<lambda>b. Some Null"]
    by simp
  then have "handler (demo_platform\<lparr>JSON_parse := (\<lambda>b. Some Null)\<rparr>) demo_config 0 Rejected ?bad
               = respond 401 ''Invalid signature''"
    by (simp add: handler_invalid_signature [OF demo_configured(2,3) v])
  with r s t show ?thesis by simp
qed

text \<open>
  C4 as stated fails: this request has a valid signature, a JSON body, an allowed
  repository and a recognized pair, so the specification gives 202; its payload has no
  issue, the handler raises a TypeError on line 136 and sends no response.
\<close>

theorem recognized_event_without_issue_gets_no_response:
  "spec_status demo_platform demo_config (signed_request ''issues'' body_closed_bare) = 202
   \<and> handler demo_platform demo_config 0 Rejected (signed_request ''issues'' body_closed_bare)
       = \<lparr>response = None, thrown = Some TypeError, outbound = [], console = []\<rparr>"
proof -
  have "spec_status demo_platform demo_config (signed_request ''issues'' body_closed_bare) = 202"
    by (simp add: spec_status_def demo_configured demo_parse_closed_bare
        payload_closed_bare_def recognized_def js_simps demo_allowed)
  then show ?thesis
    by (simp add: handler_closed_bare)
qed

section \<open>C5: the response does not wait for the notification\<close>

lemma accepted_event_response:
  assumes "GITHUB_WEBHOOK_SECRET cfg = Some secret" and "secret \<noteq> []"
    and "\<not> unset (FEISHU_WEBHOOK_URL cfg)"
    and "X_Hub_Signature_256 req = Some (expected_signature P secret (body req))"
    and "JSON_parse P (body req) = Some payload"
    and "allowed (repo_of payload) (ALLOWED_REPOS cfg)"
    and "recognized (header_or_empty (X_GitHub_Event req)) payload"
    and "thrown (handler P cfg now fo req) = None"
  shows "response (handler P cfg now fo req) = Some \<lparr>status = 202, sent = ''Accepted''\<rparr>"
proof -
  have "accepted P cfg req"
    using assms(1-7) by (simp add: accepted_def)
  then show ?thesis
    using accepted_run [OF _ assms(8)] by blast
qed

text \<open>
  C5, as the code has it. The response, the exception and the outbound call of a run
  do not depend on how the fetch ends; a failed delivery adds one line to the console
  and nothing else. An accepted event (valid signature, allowed repository, recognized
  pair) on which the handler raises no exception is answered 202 "Accepted".
\<close>

theorem response_independent_of_delivery:
  "handler P cfg now fo req
     = (handler P cfg now fo' req)\<lparr>console := console (handler P cfg now fo req)\<rparr>
   \<and> console (handler P cfg now fo req)
     = console (handler P cfg now (Response 200 None) req)
       @ (if outbound (handler P cfg now fo req) = [] then [] else reported fo)
   \<and> (GITHUB_WEBHOOK_SECRET cfg = Some secret \<and> secret \<noteq> []
        \<and> \<not> unset (FEISHU_WEBHOOK_URL cfg)
        \<and> X_Hub_Signature_256 req = Some (expected_signature P secret (body req))
        \<and> JSON_parse P (body req) = Some payload
        \<and> allowed (repo_of payload) (ALLOWED_REPOS cfg)
        \<and> recognized (header_or_empty (X_GitHub_Event req)) payload
        \<and> thrown (handler P cfg now fo req) = None
      \<longrightarrow> response (handler P cfg now fo req) = Some \<lparr>status = 202, sent = ''Accepted''\<rparr>)"
  using handler_outcome [of P cfg now fo req fo'] handler_console [of P cfg now fo req]
    accepted_event_response [of cfg secret req P payload now fo]
  by blast

text \<open>
  Instance: the signed issue_comment.created request, with a downstream that answers
  500 and one that answers 200. Both runs answer 202 and make the same call; the first
  logs the failed send.
\<close>

theorem response_independent_of_delivery_witness:
  "response (handler demo_platform demo_config 0 (Response 500 (Some (lit ''busy'')))
       (signed_request ''issue_comment'' body_comment))
     = Some \<lparr>status = 202, sent = ''Accepted''\<rparr>
   \<and> handler demo_platform demo_config 0 (Response 500 (Some (lit ''busy'')))
       (signed_request ''issue_comment'' body_comment)
     = (handler demo_platform demo_config 0 (Response 200 None)
          (signed_request ''issue_comment'' body_comment))
         \<lparr>console := [Error_send_failed (WebhookFailed 500 (lit ''busy''))]\<rparr>"
proof -
  let ?req = "signed_request ''issue_comment'' body_comment"
  let ?fo = "Response 500 (Some (lit ''busy''))"
  note th = response_independent_of_delivery
    [where P = demo_platform and cfg = demo_config and now = 0 and fo = ?fo and req = ?req
       and fo' = "Response 200 None" and secret = "lit ''s3cret''" and payload = payload_comment]
  have rec: "recognized (header_or_empty (X_GitHub_Event ?req)) payload_comment"
    by (simp add: recognized_def payload_comment_def js_simps)
  have al: "allowed (repo_of payload_comment) (ALLOWED_REPOS demo_config)"
    by (simp add: payload_comment_def js_simps demo_allowed)
  have t: "thrown (handler demo_platform demo_config 0 ?fo ?req) = None"
    by (simp add: handler_comment_demo)
  have "response (handler demo_platform demo_config 0 ?fo ?req)
          = Some \<lparr>status = 202, sent = ''Accepted''\<rparr>"
    using th rec al t by (simp add: demo_configured demo_parse_comment)
  moreover have c: "console (handler demo_platform demo_config 0 ?fo ?req)
                   = [Error_send_failed (WebhookFailed 500 (lit ''busy''))]"
    by (simp add: handler_comment_demo reported_def fetch_error_def)
  have "handler demo_platform demo_config 0 ?fo ?req
               = (handler demo_platform demo_config 0 (Response 200 None) ?req)
                   \<lparr>console := console (handler demo_platform demo_config 0 ?fo ?req)\<rparr>"
    using th by (rule conjunct1)
  then have "handler demo_platform demo_config 0 ?fo ?req
               = (handler demo_platform demo_config 0 (Response 200 None) ?req)
                   \<lparr>console := [Error_send_failed (WebhookFailed 500 (lit ''busy''))]\<rparr>"
    by (simp only: c)
  ultimately show ?thesis by (rule conjI)
qed

text \<open>
  C5 as stated fails: this request has a valid signature, an allowed repository and a
  recognized pair, but its payload has no comment; the handler raises a TypeError on
  line 162 and the response is not 202: there is none.
\<close>

theorem accepted_event_without_comment_gets_no_response:
  "X_Hub_Signature_256 (signed_request ''issue_comment'' body_comment_bare)
     = Some (expected_signature demo_platform (lit ''s3cret'') body_comment_bare)
   \<and> JSON_parse demo_platform body_comment_bare = Some payload_comment_bare
   \<and> allowed (repo_of payload_comment_bare) (ALLOWED_REPOS demo_config)
   \<and> recognized ''issue_comment'' payload_comment_bare
   \<and> response (handler demo_platform demo_config 0 (Response 200 None)
         (signed_request ''issue_comment'' body_comment_bare)) = None"
  by (simp add: demo_parse_comment_bare handler_comment_bare_demo recognized_def
      payload_comment_bare_def js_simps demo_allowed)

section \<open>C6: the repository filter\<close>

text \<open>
  C6. A repository name passes the filter exactly when the allow-list is empty or
  holds the name; the three examples of the specification follow.
\<close>

theorem repository_filter:
  "(allowed (Str r) S \<longleftrightarrow> S = {||} \<or> r |\<in>| S)
   \<and> allowed (Str r) {||}
   \<and> allowed (Str (lit ''a/b'')) {|lit ''a/b''|}
   \<and> \<not> allowed (Str (lit ''a/c'')) {|lit ''a/b''|}"
  by (auto simp: allowed_def has_def)

section \<open>C7: the comment body in the new-comment text\<close>

text \<open>
  C7. In the text of a new comment whose other fields render, a body that is a string
  longer than 200 code units is shown as its first 200 code units followed by three
  dots, a shorter one (200 included) as it is, and a missing one (undefined or null) as
  the empty string.
\<close>

theorem comment_body_truncation:
  assumes "get payload (lit ''issue'') = Inr issue"
    and "get payload (lit ''comment'') = Inr comment"
    and "ToString P repo = Inr r"
    and "field_text P issue (lit ''number'') = Inr number"
    and "field_text P issue (lit ''title'') = Inr title"
    and "get comment (lit ''user'') = Inr user"
    and "ToString P (or_else (opt_get user (lit ''login'')) (Str (lit ''unknown''))) = Inr author"
    and "field_text P comment (lit ''html_url'') = Inr html_url"
    and "get comment (lit ''body'') = Inr b"
    and "b = Str s \<or> b = Undefined \<or> b = Null"
  shows "comment_text P repo payload =
           Inr ([0xD83D, 0xDCAC] @ lit '' ['' @ r @ lit ''] Issue #'' @ number @ lit '' ''
                  @ [0x65B0, 0x8BC4, 0x8BBA] @ nl @ title @ nl @ lit ''by '' @ author @ nl @ nl
                  @ (if b = Str s then (if 200 < length s then take 200 s @ lit ''...'' else s)
                     else [])
                  @ nl @ html_url)"
proof -
  have "comment_body_text P b =
          Inr (if b = Str s then (if 200 < length s then take 200 s @ lit ''...'' else s) else [])"
    using assms(10) by (auto simp: comment_body_text_string comment_body_text_missing)
  then show ?thesis
    by (rule comment_text_rendered [OF assms(1-7) assms(9) _ assms(8)])
qed

text \<open>
  Instances: the body of 250 characters of the concrete comment request, cut to 200
  and marked, and a comment without body.
\<close>

theorem comment_body_truncation_witness:
  "comment_text demo_platform (Str (lit ''a/b'')) payload_comment =
     Inr ([0xD83D, 0xDCAC] @ lit '' [a/b] Issue #7 '' @ [0x65B0, 0x8BC4, 0x8BBA] @ nl
            @ lit ''Bug'' @ nl @ lit ''by unknown'' @ nl @ nl
            @ lit (replicate 200 CHR ''x'') @ lit ''...'' @ nl @ lit ''https://x/7#c'')
   \<and> comment_text demo_platform (Str (lit ''a/b''))
       (Obj [(lit ''issue'', Obj [(lit ''number'', Num (Finite 7)), (lit ''title'', Str (lit ''Bug''))]),
             (lit ''comment'', Obj [(lit ''html_url'', Str (lit ''https://x/7#c''))])]) =
     Inr ([0xD83D, 0xDCAC] @ lit '' [a/b] Issue #7 '' @ [0x65B0, 0x8BC4, 0x8BBA] @ nl
            @ lit ''Bug'' @ nl @ lit ''by unknown'' @ nl @ nl @ nl @ lit ''https://x/7#c'')"
proof -
  let ?issue = "Obj [(lit ''number'', Num (Finite 7)), (lit ''title'', Str (lit ''Bug''))]"
  have "comment_text demo_platform (Str (lit ''a/b'')) payload_comment =
     Inr ([0xD83D, 0xDCAC] @ lit '' [a/b] Issue #7 '' @ [0x65B0, 0x8BC4, 0x8BBA] @ nl
            @ lit ''Bug'' @ nl @ lit ''by unknown'' @ nl @ nl
            @ lit (replicate 200 CHR ''x'') @ lit ''...'' @ nl @ lit ''https://x/7#c'')"
    using comment_body_truncation
      [where P = demo_platform and payload = payload_comment and repo = "Str (lit ''a/b'')" and issue = ?issue
         and comment = "Obj [(lit ''body'', Str (lit (replicate 250 CHR ''x''))),
                             (lit ''html_url'', Str (lit ''https://x/7#c''))]"
         and r = "lit ''a/b''" and number = "lit ''7''" and title = "lit ''Bug''"
         and user = Undefined and author = "lit ''unknown''" and html_url = "lit ''https://x/7#c''"
         and b = "Str (lit (replicate 250 CHR ''x''))" and s = "lit (replicate 250 CHR ''x'')"]
    by (simp add: payload_comment_def field_text_def js_simps decimal_def digit_def lit_def)
  moreover have "comment_text demo_platform (Str (lit ''a/b''))
       (Obj [(lit ''issue'', ?issue),
             (lit ''comment'', Obj [(lit ''html_url'', Str (lit ''https://x/7#c''))])]) =
     Inr ([0xD83D, 0xDCAC] @ lit '' [a/b] Issue #7 '' @ [0x65B0, 0x8BC4, 0x8BBA] @ nl
            @ lit ''Bug'' @ nl @ lit ''by unknown'' @ nl @ nl @ nl @ lit ''https://x/7#c'')"
    using comment_body_truncation
      [where P = demo_platform and payload = "Obj [(lit ''issue'', ?issue),
             (lit ''comment'', Obj [(lit ''html_url'', Str (lit ''https://x/7#c''))])]"
         and repo = "Str (lit ''a/b'')" and issue = ?issue
         and comment = "Obj [(lit ''html_url'', Str (lit ''https://x/7#c''))]"
         and r = "lit ''a/b''" and number = "lit ''7''" and title = "lit ''Bug''"
         and user = Undefined and author = "lit ''unknown''" and html_url = "lit ''https://x/7#c''"
         and b = Undefined and s = "[]"]
    by (simp add: field_text_def js_simps decimal_def digit_def lit_def)
  ultimately show ?thesis by (rule conjI)
qed

section \<open>C8: the mention of the issue opener\<close>

text \<open>
  The content line ends with a mention exactly when the value read from the identity
  mapping is truthy, and the mention then carries that value's id and name.
\<close>

lemma closed_lines_mention:
  assumes "closed_lines P payload issue entry = Inr ls"
  shows "list_ex is_at ls \<longleftrightarrow> truthy entry"
    and "truthy entry \<Longrightarrow> last ls = TagAt (opt_get entry (lit ''id'')) (opt_get entry (lit ''name''))"
  using assms
  by (auto simp: closed_lines_def bindE_def Let_def is_at_def get_truthy
      split: sum.splits if_splits)

text \<open>
  For a mapping that is an object and a login that is not the name of a member of
  \<^verbatim>\<open>Object.prototype\<close>, the value read is the entry of the mapping, or undefined when
  there is none.
\<close>

lemma mapping_lookup_own:
  "map_of Object_prototype key = None
   \<Longrightarrow> get_computed P (Obj m) key
         = Inr (case map_of m key of None \<Rightarrow> Undefined | Some v \<Rightarrow> v)"
  by (simp add: get_computed_def split: option.splits)

text \<open>
  C8. The specification allows a mention only for a login that the identity mapping
  contains, and the comment on line 147 says the same. The read
  \<^verbatim>\<open>USER_MAPPING[opener]\<close> also finds what a plain object inherits: for the opener
  "constructor", whom the mapping does not contain, it yields the function
  \<^verbatim>\<open>Object\<close>, which is truthy, and the message ends with a mention that has no
  user id and the user name "Object".
\<close>

theorem mention_without_mapping_entry:
  "(\<exists>m. USER_MAPPING demo_config = Obj m \<and> map_of m (lit ''constructor'') = None)
   \<and> messages (handler demo_platform demo_config 0 (Response 200 None)
        (signed_request ''issues'' body_closed_by_constructor)) =
       [MsgPost ([0x2705] @ lit '' [a/b]'')
          [TagText (lit ''Issue #7 '' @ [0x5DF2, 0x5173, 0x95ED] @ nl),
           TagText (lit ''Bug'' @ nl),
           TagA [0x67E5, 0x770B, 0x8BE6, 0x60C5] (Str (lit ''https://x/7'')),
           TagText (nl @ lit ''by bob''),
           TagText nl,
           TagAt Undefined (Str (lit ''Object''))]]"
proof
  show "\<exists>m. USER_MAPPING demo_config = Obj m \<and> map_of m (lit ''constructor'') = None"
    by (simp add: demo_config_def)
qed (simp add: handler_constructor_demo messages_def)

section \<open>C9: missing logins\<close>

text \<open>
  C9, as the code has it. A missing sender login in the issue-closed message and a
  missing commenter login in the new-comment text render as "unknown". A missing
  opener login does not fail either, but its default is the empty string; it is the
  key of the identity mapping lookup and appears in no message.
\<close>

theorem missing_logins:
  "(field_text P issue (lit ''number'') = Inr number
      \<and> field_text P issue (lit ''title'') = Inr title
      \<and> get issue (lit ''html_url'') = Inr href
      \<and> get payload (lit ''sender'') = Inr sender
      \<and> \<not> truthy (opt_get sender (lit ''login''))
    \<longrightarrow> closed_lines P payload issue entry =
          Inr ([TagText (lit ''Issue #'' @ number @ lit '' '' @ [0x5DF2, 0x5173, 0x95ED] @ nl),
                TagText (title @ nl),
                TagA [0x67E5, 0x770B, 0x8BE6, 0x60C5] href,
                TagText (nl @ lit ''by unknown'')] @ mention entry))
   \<and> (get payload (lit ''issue'') = Inr issue
      \<and> get payload (lit ''comment'') = Inr comment
      \<and> ToString P repo = Inr r
      \<and> field_text P issue (lit ''number'') = Inr number
      \<and> field_text P issue (lit ''title'') = Inr title
      \<and> get comment (lit ''user'') = Inr user
      \<and> \<not> truthy (opt_get user (lit ''login''))
      \<and> get comment (lit ''body'') = Inr b
      \<and> comment_body_text P b = Inr shown
      \<and> field_text P comment (lit ''html_url'') = Inr html_url
    \<longrightarrow> comment_text P repo payload =
          Inr ([0xD83D, 0xDCAC] @ lit '' ['' @ r @ lit ''] Issue #'' @ number @ lit '' ''
                 @ [0x65B0, 0x8BC4, 0x8BBA] @ nl @ title @ nl @ lit ''by unknown'' @ nl @ nl
                 @ shown @ nl @ html_url))
   \<and> (get issue (lit ''user'') = Inr opener_user
      \<and> \<not> truthy (opt_get opener_user (lit ''login''))
    \<longrightarrow> opener_of issue = Inr (Str []))"
proof (intro conjI impI)
  assume "field_text P issue (lit ''number'') = Inr number
      \<and> field_text P issue (lit ''title'') = Inr title
      \<and> get issue (lit ''html_url'') = Inr href
      \<and> get payload (lit ''sender'') = Inr sender
      \<and> \<not> truthy (opt_get sender (lit ''login''))"
  then show "closed_lines P payload issue entry =
          Inr ([TagText (lit ''Issue #'' @ number @ lit '' '' @ [0x5DF2, 0x5173, 0x95ED] @ nl),
                TagText (title @ nl),
                TagA [0x67E5, 0x770B, 0x8BE6, 0x60C5] href,
                TagText (nl @ lit ''by unknown'')] @ mention entry)"
    using closed_lines_rendered [of P issue number title href payload sender "lit ''unknown''" entry]
    by (simp add: default_unknown lit_append [symmetric])
next
  assume "get payload (lit ''issue'') = Inr issue
      \<and> get payload (lit ''comment'') = Inr comment
      \<and> ToString P repo = Inr r
      \<and> field_text P issue (lit ''number'') = Inr number
      \<and> field_text P issue (lit ''title'') = Inr title
      \<and> get comment (lit ''user'') = Inr user
      \<and> \<not> truthy (opt_get user (lit ''login''))
      \<and> get comment (lit ''body'') = Inr b
      \<and> comment_body_text P b = Inr shown
      \<and> field_text P comment (lit ''html_url'') = Inr html_url"
  then show "comment_text P repo payload =
          Inr ([0xD83D, 0xDCAC] @ lit '' ['' @ r @ lit ''] Issue #'' @ number @ lit '' ''
                 @ [0x65B0, 0x8BC4, 0x8BBA] @ nl @ title @ nl @ lit ''by unknown'' @ nl @ nl
                 @ shown @ nl @ html_url)"
    using comment_text_rendered
      [of payload issue comment P repo r number title user "lit ''unknown''" b shown html_url]
    by (simp add: default_unknown lit_append [symmetric])
next
  assume "get issue (lit ''user'') = Inr opener_user
      \<and> \<not> truthy (opt_get opener_user (lit ''login''))"
  then show "opener_of issue = Inr (Str [])"
    by (simp add: opener_of_def or_else_def)
qed

text \<open>
  Instances: the issues.closed payload without sender and without issue user, and the
  comment payload without comment user.
\<close>

theorem missing_logins_witness:
  "closed_lines demo_platform payload_closed_anonymous
     (Obj [(lit ''number'', Num (Finite 7)), (lit ''title'', Str (lit ''Bug'')),
           (lit ''html_url'', Str (lit ''https://x/7''))]) Undefined =
     Inr [TagText (lit ''Issue #7 '' @ [0x5DF2, 0x5173, 0x95ED] @ nl),
          TagText (lit ''Bug'' @ nl),
          TagA [0x67E5, 0x770B, 0x8BE6, 0x60C5] (Str (lit ''https://x/7'')),
          TagText (nl @ lit ''by unknown'')]
   \<and> comment_text demo_platform (Str (lit ''a/b'')) payload_comment =
     Inr ([0xD83D, 0xDCAC] @ lit '' [a/b] Issue #7 '' @ [0x65B0, 0x8BC4, 0x8BBA] @ nl
            @ lit ''Bug'' @ nl @ lit ''by unknown'' @ nl @ nl
            @ lit (replicate 200 CHR ''x'') @ lit ''...'' @ nl @ lit ''https://x/7#c'')
   \<and> opener_of
       (Obj [(lit ''number'', Num (Finite 7)), (lit ''title'', Str (lit ''Bug'')),
             (lit ''html_url'', Str (lit ''https://x/7''))]) = Inr (Str [])"
proof -
  let ?issue = "Obj [(lit ''number'', Num (Finite 7)), (lit ''title'', Str (lit ''Bug'')),
                     (lit ''html_url'', Str (lit ''https://x/7''))]"
  let ?cissue = "Obj [(lit ''number'', Num (Finite 7)), (lit ''title'', Str (lit ''Bug''))]"
  let ?comment = "Obj [(lit ''body'', Str (lit (replicate 250 CHR ''x''))),
                       (lit ''html_url'', Str (lit ''https://x/7#c''))]"
  have 1: "closed_lines demo_platform payload_closed_anonymous ?issue Undefined =
     Inr [TagText (lit ''Issue #7 '' @ [0x5DF2, 0x5173, 0x95ED] @ nl),
          TagText (lit ''Bug'' @ nl),
          TagA [0x67E5, 0x770B, 0x8BE6, 0x60C5] (Str (lit ''https://x/7'')),
          TagText (nl @ lit ''by unknown'')]"
    using missing_logins
      [where P = demo_platform and issue = ?issue and number = "lit ''7''" and title = "lit ''Bug''"
         and href = "Str (lit ''https://x/7'')" and payload = payload_closed_anonymous
         and sender = Undefined and entry = Undefined]
    by (simp add: payload_closed_anonymous_def field_text_def js_simps mention_def
        decimal_def digit_def lit_def)
  have 2: "comment_text demo_platform (Str (lit ''a/b'')) payload_comment =
     Inr ([0xD83D, 0xDCAC] @ lit '' [a/b] Issue #7 '' @ [0x65B0, 0x8BC4, 0x8BBA] @ nl
            @ lit ''Bug'' @ nl @ lit ''by unknown'' @ nl @ nl
            @ lit (replicate 200 CHR ''x'') @ lit ''...'' @ nl @ lit ''https://x/7#c'')"
    using missing_logins
      [where P = demo_platform and payload = payload_comment and repo = "Str (lit ''a/b'')" and issue = ?cissue
         and comment = ?comment and r = "lit ''a/b''" and number = "lit ''7''"
         and title = "lit ''Bug''" and user = Undefined
         and html_url = "lit ''https://x/7#c''"
         and b = "Str (lit (replicate 250 CHR ''x''))"
         and shown = "lit (replicate 200 CHR ''x'') @ lit ''...''"]
    by (simp add: payload_comment_def field_text_def js_simps comment_body_text_string
        decimal_def digit_def lit_def)
  have 3: "opener_of ?issue = Inr (Str [])"
    using missing_logins [where issue = ?issue and opener_user = Undefined]
    by (simp add: js_simps)
  from 1 2 3 show ?thesis by simp
qed

text \<open>
  C9 as stated fails for the opener: on an issue without user the opener is the empty
  string, not "unknown", and the log line of the handler shows it so.
\<close>

theorem missing_opener_is_empty_string:
  "opener_of
     (Obj [(lit ''number'', Num (Finite 7)), (lit ''title'', Str (lit ''Bug'')),
           (lit ''html_url'', Str (lit ''https://x/7''))]) = Inr (Str [])
   \<and> Str [] \<noteq> Str (lit ''unknown'')
   \<and> console (handler demo_platform demo_config 0 (Response 200 None)
        (signed_request ''issues'' body_closed_anonymous)) =
       [Log_issue_closed (lit ''Issue closed by , feishuUserId:'') Undefined]"
  by (simp add: handler_anonymous_demo reported_def opener_of_def js_simps)

section \<open>C10: no deduplication by delivery identifier\<close>

text \<open>
  C10, as the code has it. The handler never looks at the delivery identifier: changing
  it changes nothing in the run, nor whether the delivery is accepted. Two deliveries
  that differ at most in that header, served one after the other at any two times and
  with any two fates of their outbound calls, are both handled, and get the same
  response, raise the same exception or none, and render the same message. When they
  are accepted (valid signature, allowed repository, recognized pair) and the handler
  raises no exception, each is answered 202 and makes its own outbound call.
\<close>

theorem no_deduplication:
  "handler P cfg now fo (req\<lparr>X_GitHub_Delivery := d\<rparr>) = handler P cfg now fo req
   \<and> accepted P cfg (req\<lparr>X_GitHub_Delivery := d\<rparr>) = accepted P cfg req
   \<and> serve P cfg [(now, fo, req), (now', fo', req\<lparr>X_GitHub_Delivery := d\<rparr>)]
       = [handler P cfg now fo req, handler P cfg now' fo' req]
   \<and> response (handler P cfg now' fo' req) = response (handler P cfg now fo req)
   \<and> thrown (handler P cfg now' fo' req) = thrown (handler P cfg now fo req)
   \<and> messages (handler P cfg now' fo' req) = messages (handler P cfg now fo req)
   \<and> (accepted P cfg req \<and> thrown (handler P cfg now fo req) = None
      \<longrightarrow> response (handler P cfg now fo req) = Some \<lparr>status = 202, sent = ''Accepted''\<rparr>
          \<and> length (outbound (handler P cfg now fo req)) = 1
          \<and> length (outbound (handler P cfg now' fo' req)) = 1)"
proof -
  let ?h = "handler P cfg now fo req"
  let ?h' = "handler P cfg now' fo' req"
  have d: "handler P cfg now fo (req\<lparr>X_GitHub_Delivery := d\<rparr>) = ?h"
    by (rule handler_delivery_irrelevant)
  have a: "accepted P cfg (req\<lparr>X_GitHub_Delivery := d\<rparr>) = accepted P cfg req"
    by (simp add: accepted_def split: option.splits)
  have s: "serve P cfg [(now, fo, req), (now', fo', req\<lparr>X_GitHub_Delivery := d\<rparr>)] = [?h, ?h']"
    by (simp add: serve_def handler_delivery_irrelevant)
  have same: "response ?h' = response ?h" "thrown ?h' = thrown ?h" "messages ?h' = messages ?h"
    by (rule handler_clock)+
  have one: "response ?h = Some \<lparr>status = 202, sent = ''Accepted''\<rparr>
               \<and> length (outbound ?h) = 1 \<and> length (outbound ?h') = 1"
    if "accepted P cfg req" and "thrown ?h = None"
    using that accepted_run [of P cfg req now fo] accepted_run [of P cfg req now' fo'] same(2)
    by simp
  show ?thesis
    using d a s same one by blast
qed

text \<open>
  Instance: the signed issues.closed request, delivered again a minute later under
  another delivery identifier, while the downstream is failing. Both deliveries are
  answered 202 and each makes one outbound call.
\<close>

theorem no_deduplication_witness:
  "accepted demo_platform demo_config (signed_request ''issues'' body_closed)
   \<and> map (\<lambda>r. (response r, length (outbound r)))
       (serve demo_platform demo_config
          [(0, Response 200 None, signed_request ''issues'' body_closed),
           (60000, Rejected,
            (signed_request ''issues'' body_closed)\<lparr>X_GitHub_Delivery := Some ''redelivery''\<rparr>)])
     = [(Some \<lparr>status = 202, sent = ''Accepted''\<rparr>, 1),
        (Some \<lparr>status = 202, sent = ''Accepted''\<rparr>, 1)]"
proof -
  let ?req = "signed_request ''issues'' body_closed"
  let ?h = "handler demo_platform demo_config 0 (Response 200 None) ?req"
  let ?h' = "handler demo_platform demo_config 60000 Rejected ?req"
  note th = no_deduplication
    [where P = demo_platform and cfg = demo_config and now = 0 and fo = "Response 200 None"
       and req = ?req and d = "Some ''redelivery''" and now' = 60000 and fo' = Rejected]
  have a: "accepted demo_platform demo_config ?req"
    by (simp add: accepted_def demo_configured demo_parse_closed payload_closed_def
        recognized_def js_simps demo_allowed signed_request_def header_or_empty_def)
  have t: "thrown ?h = None"
    by (simp add: handler_closed_demo)
  from th a t have r: "response ?h = Some \<lparr>status = 202, sent = ''Accepted''\<rparr>"
    and o: "length (outbound ?h) = 1" and o': "length (outbound ?h') = 1"
    by blast+
  from th have r': "response ?h' = response ?h"
    by blast
  from th have "serve demo_platform demo_config
          [(0, Response 200 None, ?req),
           (60000, Rejected, ?req\<lparr>X_GitHub_Delivery := Some ''redelivery''\<rparr>)] = [?h, ?h']"
    by blast
  then show ?thesis
    using a r r' o o' by simp
qed

text \<open>
  C10 as stated fails: an accepted delivery need not produce a notification. This
  request has a valid signature, a repository that the empty allow-list lets through and
  the recognized pair issues/closed, and so has its redelivery; the name of its
  repository is an object with a property \<^verbatim>\<open>toString\<close>. Each of the two deliveries is
  answered 202 on line 153, then the title on line 154 cannot be converted to a string,
  the handler raises a TypeError and no outbound call is made.
\<close>

theorem accepted_deliveries_without_notification:
  "accepted demo_platform (demo_config\<lparr>ALLOWED_REPOS := {||}\<rparr>)
     (signed_request ''issues'' body_closed_odd_repository)
   \<and> accepted demo_platform (demo_config\<lparr>ALLOWED_REPOS := {||}\<rparr>)
     ((signed_request ''issues'' body_closed_odd_repository)
        \<lparr>X_GitHub_Delivery := Some ''redelivery''\<rparr>)
   \<and> map (\<lambda>r. (response r, thrown r, outbound r))
       (serve demo_platform (demo_config\<lparr>ALLOWED_REPOS := {||}\<rparr>)
          [(0, Response 200 None, signed_request ''issues'' body_closed_odd_repository),
           (60000, Response 200 None,
            (signed_request ''issues'' body_closed_odd_repository)
              \<lparr>X_GitHub_Delivery := Some ''redelivery''\<rparr>)])
     = [(Some \<lparr>status = 202, sent = ''Accepted''\<rparr>, Some TypeError, []),
        (Some \<lparr>status = 202, sent = ''Accepted''\<rparr>, Some TypeError, [])]"
proof -
  let ?cfg = "demo_config\<lparr>ALLOWED_REPOS := {||}\<rparr>"
  let ?req = "signed_request ''issues'' body_closed_odd_repository"
  have r: "recognized ''issues'' payload_closed_odd_repository"
    by (simp add: recognized_def payload_closed_odd_repository_def js_simps)
  have a: "accepted demo_platform ?cfg ?req"
    by (simp add: accepted_def demo_configured demo_parse_odd_repository r allowed_def
        has_def header_or_empty_def)
  moreover have "accepted demo_platform ?cfg (?req\<lparr>X_GitHub_Delivery := Some ''redelivery''\<rparr>)"
    by (simp add: accepted_def demo_configured demo_parse_odd_repository r allowed_def
        has_def header_or_empty_def)
  moreover have "map (\<lambda>r. (response r, thrown r, outbound r))
       (serve demo_platform ?cfg
          [(0, Response 200 None, ?req),
           (60000, Response 200 None, ?req\<lparr>X_GitHub_Delivery := Some ''redelivery''\<rparr>)])
     = [(Some \<lparr>status = 202, sent = ''Accepted''\<rparr>, Some TypeError, []),
        (Some \<lparr>status = 202, sent = ''Accepted''\<rparr>, Some TypeError, [])]"
    by (simp add: serve_def handler_delivery_irrelevant handler_odd_repository_demo)
  ultimately show ?thesis by blast
qed
end
